theory Spec2Isabelle
  imports Main
begin

section \<open>JavaScript values\<close>

text \<open>
  The sources are TypeScript. The parts of a JavaScript value the code looks at are its
  type tag and its truthiness (\<^verbatim>\<open>if (x)\<close>, \<^verbatim>\<open>!x\<close>, \<^verbatim>\<open>a || b\<close>). Numbers are modelled as
  integers; an object is the list of its own enumerable properties in enumeration order.
\<close>

datatype jsv =
    JUndefined
  | JNull
  | JBool bool
  | JNum int
  | JStr string
  | JArr "jsv list"
  | JObj "(string \<times> jsv) list"

fun truthy :: "jsv \<Rightarrow> bool" where
  "truthy JUndefined = False"
| "truthy JNull = False"
| "truthy (JBool b) = b"
| "truthy (JNum n) = (n \<noteq> 0)"
| "truthy (JStr s) = (s \<noteq> [])"
| "truthy (JArr _) = True"
| "truthy (JObj _) = True"

text \<open>An optional property: \<open>None\<close> is a property that is absent (reads as undefined).\<close>

definition truthy_opt :: "jsv option \<Rightarrow> bool" where
  "truthy_opt v = (case v of None \<Rightarrow> False | Some x \<Rightarrow> truthy x)"

definition truthy_str :: "string option \<Rightarrow> bool" where
  "truthy_str s = (case s of None \<Rightarrow> False | Some x \<Rightarrow> x \<noteq> [])"

text \<open>
  Reading \<^verbatim>\<open>obj[key]\<close> on a plain object falls back to \<^verbatim>\<open>Object.prototype\<close> when the
  object has no own property of that name; the inherited members are functions or
  objects, hence truthy.
\<close>

definition object_prototype_keys :: "string list" where
  "object_prototype_keys =
     [''constructor'', ''hasOwnProperty'', ''isPrototypeOf'', ''propertyIsEnumerable'',
      ''toLocaleString'', ''toString'', ''valueOf'', ''__proto__'',
      ''__defineGetter__'', ''__defineSetter__'', ''__lookupGetter__'', ''__lookupSetter__'']"

text \<open>What the code throws: an array of Error objects, or one Error object (each Error is
  represented by its message), or the TypeError of the language itself.\<close>

datatype thrown =
    ErrorArray "string list"
  | ErrorObject string
  | TypeError string

section \<open>Plan compiler (src/unnamed/part_002, third file)\<close>

subsection \<open>Data model\<close>

text \<open>
  \<^verbatim>\<open>JobEdge\<close> values in a \<^verbatim>\<open>next\<close> map: a boolean, a condition given as source text, or
  an object with an optional \<^verbatim>\<open>condition\<close> (source text, or an already compiled predicate
  of type \<open>'p\<close>) and further fields that the compiler copies.
\<close>

datatype 'p condition = ConditionSource string | ConditionFn 'p

datatype 'p job_edge =
    EdgeBool bool
  | EdgeString string
  | EdgeObject "'p condition option" "(string \<times> jsv) list"

datatype 'p compiled_job_edge =
    CompiledBool bool
  | CompiledObject "'p option" "(string \<times> jsv) list"

datatype 'p edges = NextId string | NextMap "(string \<times> 'p job_edge) list"

record ('e, 'p) job_spec =
  job_id :: "string option"
  job_expression :: 'e
  job_state :: "jsv option"
  job_configuration :: "jsv option"
  job_adaptor :: "string option"
  job_next :: "'p edges option"

record ('e, 'p) execution_plan =
  plan_id :: "string option"
  plan_initialState :: "jsv option"
  plan_jobs :: "('e, 'p) job_spec list"
  plan_start :: "string option"

record ('e, 'p) compiled_job_node =
  node_id :: string
  node_expression :: 'e
  node_state :: "jsv option"
  node_configuration :: "jsv option"
  node_next :: "(string \<times> 'p compiled_job_edge) list option"
  node_previous :: "string option"

record ('e, 'p) compiled_execution_plan =
  compiled_jobs :: "string \<rightharpoonup> ('e, 'p) compiled_job_node"
  compiled_start :: "string option"

subsection \<open>compileEdges\<close>

text \<open>
  \<^verbatim>\<open>compileFunction\<close> (modules/compile-function) is not part of the sources at hand. It is a
  parameter \<open>cf\<close>: the source text of a condition is mapped to the compiled predicate, or
  to the value that \<^verbatim>\<open>compileFunction\<close> throws. Of a thrown value the code reads
  \<^verbatim>\<open>e.message\<close>, inside a template string: \<open>ThrownWithMessage m\<close> is any value other than
  \<^verbatim>\<open>null\<close> and \<^verbatim>\<open>undefined\<close>, where \<open>m\<close> is the text that \<^verbatim>\<open>${e.message}\<close> gives (the message
  of an Error; \<^verbatim>\<open>undefined\<close> for a value without that property).
\<close>

datatype thrown_value = ThrownNull | ThrownUndefined | ThrownWithMessage string

text \<open>\<^verbatim>\<open>e.message\<close> in the \<^verbatim>\<open>catch\<close> block: reading a property of \<^verbatim>\<open>null\<close> or \<^verbatim>\<open>undefined\<close>
  raises a TypeError, which leaves the block and the function.\<close>

definition message_of :: "thrown_value \<Rightarrow> thrown + string" where
  "message_of e =
     (case e of
        ThrownNull \<Rightarrow>
          Inl (TypeError (''Cannot read properties of null (reading '' @ [CHR 0x27] @
                          ''message'' @ [CHR 0x27] @ '')''))
      | ThrownUndefined \<Rightarrow>
          Inl (TypeError (''Cannot read properties of undefined (reading '' @ [CHR 0x27] @
                          ''message'' @ [CHR 0x27] @ '')''))
      | ThrownWithMessage m \<Rightarrow> Inr m)"

definition edge_error_message :: "string \<Rightarrow> string \<Rightarrow> string \<Rightarrow> string" where
  "edge_error_message from edgeId reason =
     ''Failed to compile edge condition '' @ from @ ''->'' @ edgeId @ '' ('' @ reason @ '')''"

text \<open>The body of the \<^verbatim>\<open>try\<close> block for one edge: the value stored in \<^verbatim>\<open>result[edgeId]\<close>,
  or what \<^verbatim>\<open>compileFunction\<close> threw.\<close>

fun compileEdge ::
  "(string \<Rightarrow> thrown_value + 'p) \<Rightarrow> 'p job_edge \<Rightarrow> thrown_value + 'p compiled_job_edge" where
  "compileEdge cf (EdgeBool b) = Inr (CompiledBool b)"
| "compileEdge cf (EdgeString src) =
     (case cf src of Inl e \<Rightarrow> Inl e | Inr f \<Rightarrow> Inr (CompiledObject (Some f) []))"
| "compileEdge cf (EdgeObject None rest) = Inr (CompiledObject None rest)"
| "compileEdge cf (EdgeObject (Some (ConditionFn f)) rest) = Inr (CompiledObject (Some f) rest)"
| "compileEdge cf (EdgeObject (Some (ConditionSource src)) rest) =
     (case cf src of Inl e \<Rightarrow> Inl e | Inr f \<Rightarrow> Inr (CompiledObject (Some f) rest))"

text \<open>The \<^verbatim>\<open>for (const edgeId in edges)\<close> loop, with its two accumulators \<^verbatim>\<open>errs\<close> and
  \<^verbatim>\<open>result\<close>: the \<^verbatim>\<open>catch\<close> block adds an error to \<^verbatim>\<open>errs\<close>, unless building its message
  throws.\<close>

fun edge_loop ::
  "string \<Rightarrow> (string \<Rightarrow> thrown_value + 'p) \<Rightarrow> (string \<times> 'p job_edge) list \<Rightarrow>
   string list \<Rightarrow> (string \<times> 'p compiled_job_edge) list \<Rightarrow>
   thrown + string list \<times> (string \<times> 'p compiled_job_edge) list" where
  "edge_loop from cf [] errs result = Inr (errs, result)"
| "edge_loop from cf ((edgeId, edge) # rest) errs result =
     (case compileEdge cf edge of
        Inr c \<Rightarrow> edge_loop from cf rest errs (result @ [(edgeId, c)])
      | Inl e \<Rightarrow>
          (case message_of e of
             Inl t \<Rightarrow> Inl t
           | Inr msg \<Rightarrow>
               edge_loop from cf rest (errs @ [edge_error_message from edgeId msg]) result))"

definition compileEdges ::
  "string \<Rightarrow> 'p edges \<Rightarrow> (string \<Rightarrow> thrown_value + 'p) \<Rightarrow>
   thrown + (string \<times> 'p compiled_job_edge) list" where
  "compileEdges from edges cf =
     (case edges of
        NextId target \<Rightarrow> Inr [(target, CompiledBool True)]
      | NextMap es \<Rightarrow>
          (case edge_loop from cf es [] [] of
             Inl t \<Rightarrow> Inl t
           | Inr (errs, result) \<Rightarrow> if errs \<noteq> [] then Inl (ErrorArray errs) else Inr result))"

subsection \<open>findUpstream\<close>

definition next_truthy :: "'p edges option \<Rightarrow> bool" where
  "next_truthy n = (case n of None \<Rightarrow> False | Some (NextId s) \<Rightarrow> s \<noteq> [] | Some (NextMap _) \<Rightarrow> True)"

fun edge_truthy :: "'p job_edge \<Rightarrow> bool" where
  "edge_truthy (EdgeBool b) = b"
| "edge_truthy (EdgeString s) = (s \<noteq> [])"
| "edge_truthy (EdgeObject _ _) = True"

text \<open>Truthiness of \<^verbatim>\<open>job.next[id]\<close> for a \<^verbatim>\<open>next\<close> that is a map.\<close>

definition next_has :: "(string \<times> 'p job_edge) list \<Rightarrow> string \<Rightarrow> bool" where
  "next_has es i =
     (case map_of es i of
        Some e \<Rightarrow> edge_truthy e
      | None \<Rightarrow> i \<in> set object_prototype_keys)"

fun findUpstream :: "('e, 'p) job_spec list \<Rightarrow> string \<Rightarrow> string option" where
  "findUpstream [] i = None"
| "findUpstream (job # jobs) i =
     (if next_truthy (job_next job) then
        (case job_next job of
           Some (NextId s) \<Rightarrow> if s = i then Some s else findUpstream jobs i
         | Some (NextMap es) \<Rightarrow> if next_has es i then job_id job else findUpstream jobs i
         | None \<Rightarrow> findUpstream jobs i)
      else findUpstream jobs i)"

subsection \<open>The compiler\<close>

text \<open>Decimal rendering of a number in a template string.\<close>

definition digit :: "nat \<Rightarrow> char" where
  "digit d = ''0123456789'' ! d"

fun show_nat :: "nat \<Rightarrow> string" where
  "show_nat n = (if n < 10 then [digit n] else show_nat (n div 10) @ [digit (n mod 10)])"

definition generateJobId :: "nat \<Rightarrow> string \<times> nat" where
  "generateJobId autoJobId = (''job-'' @ show_nat (Suc autoJobId), Suc autoJobId)"

text \<open>The first loop writes the generated ids onto the jobs of the input plan; the model
  returns the updated jobs. \<^verbatim>\<open>!job.id\<close> holds for an absent and for an empty id.\<close>

fun ensure_ids :: "nat \<Rightarrow> ('e, 'p) job_spec list \<Rightarrow> ('e, 'p) job_spec list" where
  "ensure_ids autoJobId [] = []"
| "ensure_ids autoJobId (job # jobs) =
     (if \<not> truthy_str (job_id job) then
        (case generateJobId autoJobId of
           (new_id, autoJobId') \<Rightarrow> job\<lparr>job_id := Some new_id\<rparr> # ensure_ids autoJobId' jobs)
      else job # ensure_ids autoJobId jobs)"

text \<open>\<^verbatim>\<open>trapErrors\<close> applied to the outcome of the wrapped function: its result is the
  extended error collection and the value the function assigned (if it came that far), or
  what is thrown on.\<close>

definition trapErrors :: "string list \<Rightarrow> thrown + 'a \<Rightarrow> thrown + string list \<times> 'a option" where
  "trapErrors errs r =
     (case r of
        Inr v \<Rightarrow> Inr (errs, Some v)
      | Inl (ErrorArray es) \<Rightarrow> Inr (errs @ es, None)
      | Inl e \<Rightarrow> Inl e)"

text \<open>\<^verbatim>\<open>job.id!\<close>: the first loop has set every id; an undefined one would be used as the
  property key \<^verbatim>\<open>undefined\<close>.\<close>

definition the_id :: "('e, 'p) job_spec \<Rightarrow> string" where
  "the_id job = (case job_id job of Some i \<Rightarrow> i | None \<Rightarrow> ''undefined'')"

text \<open>The second loop. \<open>all\<close> is \<^verbatim>\<open>plan.jobs\<close> (read by \<^verbatim>\<open>findUpstream\<close>), the last three
  arguments are \<^verbatim>\<open>newPlan.start\<close>, \<^verbatim>\<open>newPlan.jobs\<close> and \<^verbatim>\<open>errs\<close>.\<close>

fun compile_loop ::
  "(string \<Rightarrow> thrown_value + 'p) \<Rightarrow> ('e, 'p) job_spec list \<Rightarrow> ('e, 'p) job_spec list \<Rightarrow>
   string option \<Rightarrow> (string \<rightharpoonup> ('e, 'p) compiled_job_node) \<Rightarrow> string list \<Rightarrow>
   thrown + (string option \<times> (string \<rightharpoonup> ('e, 'p) compiled_job_node) \<times> string list)" where
  "compile_loop cf all [] start jobs errs = Inr (start, jobs, errs)"
| "compile_loop cf all (job # rest) start jobs errs =
     (let jobId = the_id job;
          start' = (if \<not> truthy_str start then Some jobId else start);
          newJob = \<lparr> node_id = jobId,
                     node_expression = job_expression job,
                     node_state = (if truthy_opt (job_state job) then job_state job else None),
                     node_configuration =
                       (if truthy_opt (job_configuration job) then job_configuration job else None),
                     node_next = None,
                     node_previous = None \<rparr>
      in case (if next_truthy (job_next job)
               then (case job_next job of
                       Some n \<Rightarrow> trapErrors errs (compileEdges jobId n cf)
                     | None \<Rightarrow> Inr (errs, None))
               else Inr (errs, None)) of
           Inl e \<Rightarrow> Inl e
         | Inr (errs', nxt) \<Rightarrow>
             compile_loop cf all rest start'
               (jobs(jobId \<mapsto> newJob\<lparr> node_next := nxt, node_previous := findUpstream all jobId \<rparr>))
               errs')"

text \<open>\<^verbatim>\<open>Array.prototype.join\<close> on an array of strings.\<close>

fun join :: "string \<Rightarrow> string list \<Rightarrow> string" where
  "join sep [] = []"
| "join sep [x] = x"
| "join sep (x # y # ys) = x @ sep @ join sep (y # ys)"

definition join_messages :: "string list \<Rightarrow> string" where
  "join_messages msgs = join [CHR 0x0A, CHR 0x0A] msgs"

text \<open>The compiler returns the outcome (the compiled plan, or what it throws) together
  with the input plan as the call leaves it.\<close>

definition compile ::
  "(string \<Rightarrow> thrown_value + 'p) \<Rightarrow> ('e, 'p) execution_plan \<Rightarrow>
   (thrown + ('e, 'p) compiled_execution_plan) \<times> ('e, 'p) execution_plan" where
  "compile cf plan =
     (let plan' = plan\<lparr> plan_jobs := ensure_ids 0 (plan_jobs plan) \<rparr>
      in (case compile_loop cf (plan_jobs plan') (plan_jobs plan') (plan_start plan') Map.empty [] of
            Inl e \<Rightarrow> Inl e
          | Inr (start, jobs, errs) \<Rightarrow>
              if errs \<noteq> [] then Inl (ErrorObject (join_messages errs))
              else Inr \<lparr> compiled_jobs = jobs, compiled_start = start \<rparr>,
          plan'))"

text \<open>
  The compiler is typed on \<^verbatim>\<open>ExecutionPlan\<close>, whose \<^verbatim>\<open>jobs\<close> is an array. At run time the
  argument is whatever value the caller passes. A \<^verbatim>\<open>CompiledExecutionPlan\<close> has a plain
  object (a map from job id to node) as its \<^verbatim>\<open>jobs\<close>; the first statement that touches
  it, \<^verbatim>\<open>for (const job of plan.jobs)\<close>, needs an iterable and raises a TypeError on a plain
  object, before anything is written.
\<close>

datatype ('e, 'p) plan_value =
    UncompiledPlan "('e, 'p) execution_plan"
  | CompiledPlan "('e, 'p) compiled_execution_plan"

definition compile_value ::
  "(string \<Rightarrow> thrown_value + 'p) \<Rightarrow> ('e, 'p) plan_value \<Rightarrow>
   (thrown + ('e, 'p) compiled_execution_plan) \<times> ('e, 'p) plan_value" where
  "compile_value cf v =
     (case v of
        UncompiledPlan plan \<Rightarrow> (case compile cf plan of (r, plan') \<Rightarrow> (r, UncompiledPlan plan'))
      | CompiledPlan c \<Rightarrow> (Inl (TypeError ''plan.jobs is not iterable''), CompiledPlan c))"

section \<open>Execution context of an attempt (src/unnamed/part_006)\<close>

text \<open>
  The messages pushed on the attempt channel. A payload field written with a non-null
  assertion (\<^verbatim>\<open>state.activeRun!\<close>) is optional here: the assertion checks nothing at run
  time. \<open>'s\<close> is the type of job states, \<open>'l\<close> the type of log events.
\<close>

datatype 'l message =
    ATTEMPT_START
  | RUN_START (msg_run_id: "string option") (msg_job_id: "string option")
  | RUN_COMPLETE (msg_run_id: "string option") (msg_job_id: "string option")
      (output_dataclip_id: string) (output_dataclip: string)
  | ATTEMPT_LOG 'l (attempt_id: "string option") (log_run_id: "string option")
  | ATTEMPT_COMPLETE (final_dataclip_id: "string option")

record 's attempt_state =
  activeRun :: "string option"
  activeJob :: "string option"
  attempt_plan_id :: "string option"
  dataclips :: "(string \<rightharpoonup> 's) option"
  result :: "string option"

text \<open>
  The context: the channel is represented by the messages pushed on it so far, in order;
  \<open>awaiting_ok\<close> holds the values that \<^verbatim>\<open>onComplete\<close> will receive once the server
  acknowledges the corresponding \<^verbatim>\<open>ATTEMPT_COMPLETE\<close> with \<^verbatim>\<open>ok\<close>.
\<close>

record ('s, 'l) attempt_context =
  channel :: "'l message list"
  state :: "'s attempt_state"
  awaiting_ok :: "'s option list"

text \<open>\<^verbatim>\<open>execute\<close> creates the state as \<^verbatim>\<open>{ plan }\<close>: every other field is undefined.\<close>

definition initial_context :: "string option \<Rightarrow> ('s, 'l) attempt_context" where
  "initial_context pid =
     \<lparr> channel = [],
       state = \<lparr> activeRun = None, activeJob = None, attempt_plan_id = pid,
                 dataclips = None, result = None \<rparr>,
       awaiting_ok = [] \<rparr>"

definition push :: "'l message \<Rightarrow> ('s, 'l) attempt_context \<Rightarrow> ('s, 'l) attempt_context" where
  "push m ctx = ctx\<lparr> channel := channel ctx @ [m] \<rparr>"

text \<open>The handlers. The value that \<^verbatim>\<open>crypto.randomUUID()\<close> returns during the call is the
  argument \<open>uuid\<close>. \<^verbatim>\<open>stringify\<close> (util) is a parameter.\<close>

definition onJobStart :: "('s, 'l) attempt_context \<Rightarrow> string \<Rightarrow> string \<Rightarrow> ('s, 'l) attempt_context" where
  "onJobStart ctx uuid event =
     (let st = (state ctx)\<lparr> activeRun := Some uuid \<rparr>;
          st = st\<lparr> activeJob := Some event \<rparr>
      in push (RUN_START (activeJob st) (activeJob st)) (ctx\<lparr> state := st \<rparr>))"

definition onJobComplete ::
  "('s \<Rightarrow> string) \<Rightarrow> ('s, 'l) attempt_context \<Rightarrow> string \<Rightarrow> 's \<Rightarrow> ('s, 'l) attempt_context" where
  "onJobComplete stringify ctx uuid event_state =
     (let dataclipId = uuid;
          ctx = push (RUN_COMPLETE (activeRun (state ctx)) (activeJob (state ctx))
                        dataclipId (stringify event_state)) ctx;
          st = state ctx;
          clips = (case dataclips st of None \<Rightarrow> Map.empty | Some d \<Rightarrow> d);
          st = st\<lparr> dataclips := Some (clips(dataclipId \<mapsto> event_state)) \<rparr>;
          st = st\<lparr> result := Some dataclipId \<rparr>;
          st = st\<lparr> activeRun := None, activeJob := None \<rparr>
      in ctx\<lparr> state := st \<rparr>)"

definition onWorkflowStart :: "('s, 'l) attempt_context \<Rightarrow> ('s, 'l) attempt_context" where
  "onWorkflowStart ctx = push ATTEMPT_START ctx"

text \<open>\<^verbatim>\<open>state.dataclips[state.result!]\<close> raises a TypeError when \<^verbatim>\<open>state.dataclips\<close> is
  undefined; an undefined \<^verbatim>\<open>state.result\<close> reads the property named \<^verbatim>\<open>undefined\<close>.\<close>

definition onWorkflowComplete :: "('s, 'l) attempt_context \<Rightarrow> thrown + ('s, 'l) attempt_context" where
  "onWorkflowComplete ctx =
     (let key = (case result (state ctx) of Some r \<Rightarrow> r | None \<Rightarrow> ''undefined'')
      in case dataclips (state ctx) of
        None \<Rightarrow>
          Inl (TypeError (''Cannot read properties of undefined (reading '' @ [CHR 0x27] @
                          key @ [CHR 0x27] @ '')''))
      | Some clips \<Rightarrow>
          (let res = clips key;
               ctx = push (ATTEMPT_COMPLETE (result (state ctx))) ctx
           in Inr (ctx\<lparr> awaiting_ok := awaiting_ok ctx @ [res] \<rparr>)))"

definition onJobLog :: "('s, 'l) attempt_context \<Rightarrow> 'l \<Rightarrow> ('s, 'l) attempt_context" where
  "onJobLog ctx event =
     push (ATTEMPT_LOG event (attempt_plan_id (state ctx))
             (if truthy_str (activeRun (state ctx)) then activeRun (state ctx) else None)) ctx"

text \<open>The events of the engine, each with the value \<^verbatim>\<open>crypto.randomUUID()\<close> would return
  while it is handled, and the listeners bound to them in \<^verbatim>\<open>execute\<close>.\<close>

datatype ('s, 'l) engine_event =
    WorkflowStart
  | JobStart string
  | JobComplete 's
  | Log 'l
  | WorkflowComplete

definition dispatch ::
  "('s \<Rightarrow> string) \<Rightarrow> ('s, 'l) attempt_context \<Rightarrow> ('s, 'l) engine_event \<times> string \<Rightarrow>
   thrown + ('s, 'l) attempt_context" where
  "dispatch stringify ctx ev =
     (case fst ev of
        WorkflowStart \<Rightarrow> Inr (onWorkflowStart ctx)
      | JobStart jobId \<Rightarrow> Inr (onJobStart ctx (snd ev) jobId)
      | JobComplete s \<Rightarrow> Inr (onJobComplete stringify ctx (snd ev) s)
      | Log l \<Rightarrow> Inr (onJobLog ctx l)
      | WorkflowComplete \<Rightarrow> onWorkflowComplete ctx)"

text \<open>A handler that throws has changed nothing; the emitter goes on with the next event.\<close>

fun run_events ::
  "('s \<Rightarrow> string) \<Rightarrow> ('s, 'l) attempt_context \<Rightarrow> (('s, 'l) engine_event \<times> string) list \<Rightarrow>
   ('s, 'l) attempt_context" where
  "run_events stringify ctx [] = ctx"
| "run_events stringify ctx (ev # evs) =
     run_events stringify
       (case dispatch stringify ctx ev of Inr ctx' \<Rightarrow> ctx' | Inl _ \<Rightarrow> ctx) evs"

text \<open>The \<^verbatim>\<open>output_dataclip_id\<close> of the last \<^verbatim>\<open>RUN_COMPLETE\<close> among the pushed messages.\<close>

fun last_run_complete :: "'l message list \<Rightarrow> string option" where
  "last_run_complete [] = None"
| "last_run_complete (m # ms) =
     (case last_run_complete ms of
        Some i \<Rightarrow> Some i
      | None \<Rightarrow> (case m of RUN_COMPLETE _ _ i _ \<Rightarrow> Some i | _ \<Rightarrow> None))"

section \<open>Runner (src/unnamed/part_003 and src/unnamed/part_002, second file)\<close>

subsection \<open>Promises and operations\<close>

text \<open>
  A promise is represented by how it ends: it settles after some number of milliseconds,
  fulfilled with a value (\<open>Inr\<close>) or rejected with a reason (\<open>Inl\<close>, the text of the
  error), or it stays pending for ever. An operation maps a state to a promise of the
  next state; an operation that returns a plain state or throws is one that settles
  after 0 ms.
\<close>

datatype 's promise = Settles nat "string + 's" | Never

type_synonym operation = "jsv \<Rightarrow> jsv promise"

text \<open>\<^verbatim>\<open>acc.then(operation)\<close>: the callback runs when \<open>acc\<close> is fulfilled, with the value of
  \<open>acc\<close>; a rejected or pending \<open>acc\<close> never calls it.\<close>

definition then_promise :: "'s promise \<Rightarrow> ('s \<Rightarrow> 's promise) \<Rightarrow> 's promise" where
  "then_promise acc operation =
     (case acc of
        Never \<Rightarrow> Never
      | Settles t (Inl e) \<Rightarrow> Settles t (Inl e)
      | Settles t (Inr v) \<Rightarrow>
          (case operation v of Never \<Rightarrow> Never | Settles d r \<Rightarrow> Settles (t + d) r))"

definition defaultExecute :: "('s \<Rightarrow> 's promise) list \<Rightarrow> 's \<Rightarrow> 's promise" where
  "defaultExecute operations s =
     (let start = Settles 0 (Inr s)
      in foldl (\<lambda>acc operation. then_promise acc operation) start operations)"

text \<open>\<^verbatim>\<open>wrapOperation\<close> without its log lines; \<^verbatim>\<open>clone\<close> is a parameter.\<close>

definition wrapOperation :: "(jsv \<Rightarrow> jsv) \<Rightarrow> operation \<Rightarrow> bool \<Rightarrow> operation" where
  "wrapOperation clone fn immutableState =
     (\<lambda>s. let newState = (if immutableState then clone s else s) in fn newState)"

subsection \<open>prepareJob\<close>

datatype expression = SourceText string | OperationList "operation list"

text \<open>The options the code reads (\<^verbatim>\<open>opts.timeout\<close> and so on); an absent boolean option is \<open>False\<close>.\<close>

record options =
  opt_timeout :: "int option"
  opt_immutableState :: bool
  opt_forceSandbox :: bool
  opt_strict :: bool

text \<open>What \<^verbatim>\<open>loadModule\<close> (modules/module-loader, a parameter) resolves to: the exports of
  the module.\<close>

record module_exports =
  export_default :: "operation list"
  export_execute :: "(operation list \<Rightarrow> operation) option"
  export_operations :: "operation list option"

record job_module =
  jm_operations :: "operation list"
  jm_execute :: "(operation list \<Rightarrow> operation) option"

definition prepareJob ::
  "(string \<Rightarrow> string + module_exports) \<Rightarrow> expression \<Rightarrow> options \<Rightarrow> string + job_module" where
  "prepareJob loadModule expression opts =
     (case expression of
        SourceText src \<Rightarrow>
          (case loadModule src of
             Inl e \<Rightarrow> Inl e
           | Inr exports \<Rightarrow>
               Inr \<lparr> jm_operations =
                       (case export_operations exports of
                          Some ops \<Rightarrow> ops
                        | None \<Rightarrow> export_default exports),
                     jm_execute = export_execute exports \<rparr>)
      | OperationList ops \<Rightarrow>
          if opt_forceSandbox opts then Inl ''Invalid arguments: jobs must be strings''
          else Inr \<lparr> jm_operations = ops, jm_execute = None \<rparr>)"

subsection \<open>prepareFinalState\<close>

fun set_property :: "string \<Rightarrow> jsv \<Rightarrow> (string \<times> jsv) list \<Rightarrow> (string \<times> jsv) list" where
  "set_property k v [] = [(k, v)]"
| "set_property k v ((k', v') # rest) =
     (if k' = k then (k, v) # rest else (k', v') # set_property k v rest)"

text \<open>
  \<^verbatim>\<open>source.hasOwnProperty(k)\<close>, with \<^verbatim>\<open>source[k]\<close> when it holds. The method is looked up on
  the state itself: a state with an own property named \<^verbatim>\<open>hasOwnProperty\<close> hides the inherited
  method, and calling a value that is not a function raises a TypeError (the values of
  type \<open>jsv\<close> contain no functions). A state that is not an object has none of the keys
  \<^verbatim>\<open>data\<close>, \<^verbatim>\<open>error\<close>, \<^verbatim>\<open>references\<close>.
\<close>

definition own_property :: "jsv \<Rightarrow> string \<Rightarrow> thrown + jsv option" where
  "own_property source k =
     (case source of
        JObj props \<Rightarrow>
          (case map_of props ''hasOwnProperty'' of
             Some _ \<Rightarrow> Inl (TypeError ''source.hasOwnProperty is not a function'')
           | None \<Rightarrow> Inr (map_of props k))
      | _ \<Rightarrow> Inr None)"

text \<open>\<^verbatim>\<open>keys.forEach\<close>: an exception in the callback ends the loop and the function.\<close>

fun assignKeys ::
  "jsv \<Rightarrow> (string \<times> jsv) list \<Rightarrow> string list \<Rightarrow> thrown + (string \<times> jsv) list" where
  "assignKeys source target [] = Inr target"
| "assignKeys source target (k # keys) =
     (case own_property source k of
        Inl t \<Rightarrow> Inl t
      | Inr (Some v) \<Rightarrow> assignKeys source (set_property k v target) keys
      | Inr None \<Rightarrow> assignKeys source target keys)"

text \<open>\<open>roundtrip\<close> stands for \<^verbatim>\<open>JSON.parse(stringify(state))\<close>, which returns the cleaned
  state or throws (\<^verbatim>\<open>JSON.parse\<close> throws when \<^verbatim>\<open>stringify\<close> has returned \<^verbatim>\<open>undefined\<close>).\<close>

definition prepareFinalState :: "(jsv \<Rightarrow> thrown + jsv) \<Rightarrow> options \<Rightarrow> jsv \<Rightarrow> thrown + jsv" where
  "prepareFinalState roundtrip opts s =
     (if truthy s then
        (case (if opt_strict opts
               then (case assignKeys s [] [''data'', ''error'', ''references''] of
                       Inl t \<Rightarrow> Inl t
                     | Inr target \<Rightarrow> Inr (JObj target))
               else Inr s) of
           Inl t \<Rightarrow> Inl t
         | Inr s' \<Rightarrow> roundtrip s')
      else Inr s)"

subsection \<open>The run\<close>

definition TIMEOUT :: int where
  "TIMEOUT = 5 * 60 * 1000"

definition ERR_TIMEOUT :: string where
  "ERR_TIMEOUT = ''timeout''"

definition ERR_RUNTIME_EXCEPTION :: string where
  "ERR_RUNTIME_EXCEPTION = ''runtime exception''"

text \<open>When a timer armed with \<^verbatim>\<open>setTimeout(f, ms)\<close> fires: Node uses 1 ms for a delay below 1
  or above \<open>2\<^sup>3\<^sup>1 - 1\<close>.\<close>

definition timer_delay :: "int \<Rightarrow> nat" where
  "timer_delay ms = (if 1 \<le> ms \<and> ms \<le> 2147483647 then nat ms else 1)"

text \<open>
  What a call of the runner leaves behind: how the returned promise ends (times count
  from the moment the timer is armed), the delays of the timers armed with
  \<^verbatim>\<open>setTimeout\<close>, whether \<^verbatim>\<open>clearTimeout\<close> removed the timer before it fired, and the
  rejection of the promise of the \<^verbatim>\<open>async\<close> executor itself, which nothing handles.
\<close>

record run_outcome =
  settled :: "jsv promise"
  timers :: "int list"
  timer_cleared :: bool
  unhandled :: "string option"

text \<open>
  Both files wrap the same steps in \<^verbatim>\<open>new Promise(async (resolve, reject) => ...)\<close>;
  they differ in the value passed to \<^verbatim>\<open>resolve\<close> (\<open>finish\<close>, which may throw). An exception
  before the \<^verbatim>\<open>try\<close> block rejects the promise of the executor: neither \<^verbatim>\<open>resolve\<close> nor
  \<^verbatim>\<open>reject\<close> is called. After it, the timer callback and the continuation of
  \<^verbatim>\<open>await reducer(...)\<close> race; the first to call \<^verbatim>\<open>resolve\<close> or \<^verbatim>\<open>reject\<close> settles the promise.
  The continuation clears the timer and then computes the value to resolve with, inside
  the \<^verbatim>\<open>try\<close> block: an exception there is caught like a rejection of the chain.
\<close>

text \<open>The main reducer: \<^verbatim>\<open>(execute || defaultExecute)(...operations.map(wrapOperation))\<close>.\<close>

definition make_reducer :: "(jsv \<Rightarrow> jsv) \<Rightarrow> job_module \<Rightarrow> options \<Rightarrow> operation" where
  "make_reducer clone jm opts =
     (case jm_execute jm of Some execute \<Rightarrow> execute | None \<Rightarrow> defaultExecute)
       (map (\<lambda>op. wrapOperation clone op (opt_immutableState opts)) (jm_operations jm))"

definition pipeline ::
  "(options \<Rightarrow> jsv \<Rightarrow> thrown + jsv) \<Rightarrow> (string \<Rightarrow> string + module_exports) \<Rightarrow>
   (jsv \<Rightarrow> jsv) \<Rightarrow> expression \<Rightarrow> jsv \<Rightarrow> options \<Rightarrow> run_outcome" where
  "pipeline finish loadModule clone expression initialState opts =
     (let timeout_ms = (case opt_timeout opts of
                          Some t \<Rightarrow> if t \<noteq> 0 then t else TIMEOUT
                        | None \<Rightarrow> TIMEOUT)
      in case prepareJob loadModule expression opts of
           Inl e \<Rightarrow>
             \<lparr> settled = Never, timers = [], timer_cleared = False, unhandled = Some e \<rparr>
         | Inr jm \<Rightarrow>
             (let reducer = make_reducer clone jm opts;
                  fires = timer_delay timeout_ms
              in case reducer initialState of
                   Never \<Rightarrow>
                     \<lparr> settled = Settles fires (Inl ERR_TIMEOUT), timers = [timeout_ms],
                       timer_cleared = False, unhandled = None \<rparr>
                 | Settles t r \<Rightarrow>
                     if t < fires then
                       (case r of
                          Inr res \<Rightarrow>
                            (case finish opts res of
                               Inr final \<Rightarrow>
                                 \<lparr> settled = Settles t (Inr final), timers = [timeout_ms],
                                   timer_cleared = True, unhandled = None \<rparr>
                             | Inl thrown_in_try \<Rightarrow>
                                 \<lparr> settled = Settles t (Inl ERR_RUNTIME_EXCEPTION),
                                   timers = [timeout_ms], timer_cleared = True,
                                   unhandled = None \<rparr>)
                        | Inl e \<Rightarrow>
                            \<lparr> settled = Settles t (Inl ERR_RUNTIME_EXCEPTION), timers = [timeout_ms],
                              timer_cleared = False, unhandled = None \<rparr>)
                     else
                       \<lparr> settled = Settles fires (Inl ERR_TIMEOUT), timers = [timeout_ms],
                         timer_cleared = False, unhandled = None \<rparr>))"

text \<open>The default export of the second file of src/unnamed/part_002 (imported elsewhere as
  \<^verbatim>\<open>execute\<close>).\<close>

definition execute_expression ::
  "(jsv \<Rightarrow> thrown + jsv) \<Rightarrow> (string \<Rightarrow> string + module_exports) \<Rightarrow> (jsv \<Rightarrow> jsv) \<Rightarrow>
   expression \<Rightarrow> jsv \<Rightarrow> options \<Rightarrow> run_outcome" where
  "execute_expression roundtrip loadModule clone expression initialState opts =
     pipeline (prepareFinalState roundtrip) loadModule clone expression initialState opts"

text \<open>\<^verbatim>\<open>run\<close> of src/unnamed/part_003.\<close>

definition run ::
  "(string \<Rightarrow> string + module_exports) \<Rightarrow> (jsv \<Rightarrow> jsv) \<Rightarrow>
   expression \<Rightarrow> jsv \<Rightarrow> options \<Rightarrow> run_outcome" where
  "run loadModule clone incomingJobs initialState opts =
     pipeline (\<lambda>opts res. Inr res) loadModule clone incomingJobs initialState opts"

section \<open>Worker configuration (src/unnamed/part_005)\<close>

text \<open>A number is an integer or NaN. \<^verbatim>\<open>parseInt\<close> is a parameter, with its optional radix.\<close>

datatype js_number = NaN | Number int

definition times :: "js_number \<Rightarrow> int \<Rightarrow> js_number" where
  "times x k = (case x of NaN \<Rightarrow> NaN | Number n \<Rightarrow> Number (n * k))"

text \<open>\<^verbatim>\<open>String.prototype.split\<close> with a separator of one character.\<close>

fun split :: "char \<Rightarrow> string \<Rightarrow> string list" where
  "split sep [] = [[]]"
| "split sep (c # cs) =
     (if c = sep then [] # split sep cs
      else (case split sep cs of w # ws \<Rightarrow> (c # w) # ws | [] \<Rightarrow> [[c]]))"

text \<open>An absent value (\<^verbatim>\<open>undefined\<close>) is \<open>None\<close>.\<close>

definition setArg :: "'a option \<Rightarrow> 'a option \<Rightarrow> 'a option \<Rightarrow> 'a option" where
  "setArg cliValue envValue defaultValue =
     (if cliValue \<noteq> None then cliValue else if envValue \<noteq> None then envValue else defaultValue)"

text \<open>What yargs parsed from the command line.\<close>

record parsed_args =
  cli_port :: "js_number option"
  cli_lightning :: "string option"
  cli_repoDir :: "string option"
  cli_secret :: "string option"
  cli_loop :: "bool option"
  cli_log :: "string option"
  cli_lightningPublicKey :: "string option"
  cli_mock :: "bool option"
  cli_backoff :: "string option"
  cli_capacity :: "js_number option"
  cli_runMemory :: "js_number option"
  cli_statePropsToRemove :: "string list option"
  cli_maxRunDurationSeconds :: "js_number option"

record environment =
  WORKER_BACKOFF :: "string option"
  WORKER_CAPACITY :: "string option"
  WORKER_LIGHTNING_PUBLIC_KEY :: "string option"
  WORKER_LIGHTNING_SERVICE_URL :: "string option"
  WORKER_LOG_LEVEL :: "string option"
  WORKER_MAX_RUN_DURATION_SECONDS :: "string option"
  WORKER_MAX_RUN_MEMORY_MB :: "string option"
  WORKER_PORT :: "string option"
  WORKER_REPO_DIR :: "string option"
  WORKER_SECRET :: "string option"
  WORKER_STATE_PROPS_TO_REMOVE :: "string option"

record args =
  port :: "js_number option"
  lightning :: "string option"
  repoDir :: "string option"
  secret :: "string option"
  lightningPublicKey :: "string option"
  log :: "string option"
  loop :: bool
  mock :: bool
  backoff :: "string option"
  capacity :: "js_number option"
  statePropsToRemove :: "string list option"
  runMemory :: "js_number option"
  maxRunDurationSeconds :: "js_number option"

text \<open>\<^verbatim>\<open>X ? f(X) : undefined\<close> for an environment variable \<open>X\<close>: an empty string is falsy.\<close>

definition if_set :: "string option \<Rightarrow> (string \<Rightarrow> 'a) \<Rightarrow> 'a option" where
  "if_set x f = (case x of None \<Rightarrow> None | Some v \<Rightarrow> if v \<noteq> [] then Some (f v) else None)"

definition args :: "(string \<Rightarrow> nat option \<Rightarrow> js_number) \<Rightarrow> parsed_args \<Rightarrow> environment \<Rightarrow> args" where
  "args parseInt parser env =
     \<lparr> port = setArg (cli_port parser) (if_set (WORKER_PORT env) (\<lambda>v. parseInt v None))
                (Some (Number 2222)),
       lightning = setArg (cli_lightning parser) (WORKER_LIGHTNING_SERVICE_URL env)
                     (Some ''ws://localhost:4000/worker''),
       repoDir = setArg (cli_repoDir parser) (WORKER_REPO_DIR env) None,
       secret = setArg (cli_secret parser) (WORKER_SECRET env) None,
       lightningPublicKey =
         setArg (cli_lightningPublicKey parser) (WORKER_LIGHTNING_PUBLIC_KEY env) None,
       log = setArg (cli_log parser) (WORKER_LOG_LEVEL env) (Some ''debug''),
       loop = (case cli_loop parser of Some b \<Rightarrow> b | None \<Rightarrow> True),
       mock = (case cli_mock parser of Some b \<Rightarrow> b | None \<Rightarrow> False),
       backoff = setArg (cli_backoff parser) (WORKER_BACKOFF env) (Some ''1/10''),
       capacity = setArg (cli_capacity parser)
                    (if_set (WORKER_CAPACITY env) (\<lambda>v. parseInt v None)) (Some (Number 5)),
       statePropsToRemove =
         setArg (cli_statePropsToRemove parser)
           (if_set (WORKER_STATE_PROPS_TO_REMOVE env) (split CHR '',''))
           (Some [''configuration'', ''response'']),
       runMemory = setArg (cli_runMemory parser)
                     (if_set (WORKER_MAX_RUN_MEMORY_MB env) (\<lambda>v. parseInt v None))
                     (Some (Number 500)),
       maxRunDurationSeconds =
         setArg (cli_maxRunDurationSeconds parser)
           (if_set (WORKER_MAX_RUN_DURATION_SECONDS env) (\<lambda>v. parseInt v None))
           (Some (Number 300)) \<rparr>"

text \<open>\<^verbatim>\<open>args.backoff.split('/').map((n) => parseInt(n, 10) * 1000)\<close>, whose first two elements
  are \<^verbatim>\<open>minBackoff\<close> and \<^verbatim>\<open>maxBackoff\<close>.\<close>

definition backoff_bounds :: "(string \<Rightarrow> nat option \<Rightarrow> js_number) \<Rightarrow> string \<Rightarrow> js_number list" where
  "backoff_bounds parseInt b = map (\<lambda>n. times (parseInt n (Some 10)) 1000) (split CHR ''/'' b)"

section \<open>Notions used in the statements\<close>

subsection \<open>Plan compiler\<close>

text \<open>The source text that \<^verbatim>\<open>compileEdges\<close> hands to \<^verbatim>\<open>compileFunction\<close> for an edge, if
  any: an edge that is a string, or the \<^verbatim>\<open>condition\<close> of an edge object when it is a
  string.\<close>

fun condition_text :: "'p job_edge \<Rightarrow> string option" where
  "condition_text (EdgeBool b) = None"
| "condition_text (EdgeString src) = Some src"
| "condition_text (EdgeObject None rest) = None"
| "condition_text (EdgeObject (Some (ConditionFn f)) rest) = None"
| "condition_text (EdgeObject (Some (ConditionSource src)) rest) = Some src"

text \<open>The error recorded for one edge, for one job, and for a list of jobs, in the order
  of the scan: every edge whose condition fails to compile, with a thrown value that has a
  message, contributes its message.\<close>

definition edge_failure :: "(string \<Rightarrow> thrown_value + 'p) \<Rightarrow> string \<Rightarrow> string \<times> 'p job_edge \<Rightarrow> string list" where
  "edge_failure cf from ke =
     (case condition_text (snd ke) of
        None \<Rightarrow> []
      | Some src \<Rightarrow>
          (case cf src of
             Inl (ThrownWithMessage reason) \<Rightarrow> [edge_error_message from (fst ke) reason]
           | _ \<Rightarrow> []))"

text \<open>The TypeError that ends the scan at an edge: \<^verbatim>\<open>compileFunction\<close> has thrown \<^verbatim>\<open>null\<close> or
  \<^verbatim>\<open>undefined\<close> for its condition.\<close>

definition edge_fatal ::
  "(string \<Rightarrow> thrown_value + 'p) \<Rightarrow> string \<times> 'p job_edge \<Rightarrow> thrown option" where
  "edge_fatal cf ke =
     (case condition_text (snd ke) of
        None \<Rightarrow> None
      | Some src \<Rightarrow>
          (case cf src of
             Inl e \<Rightarrow> (case message_of e of Inl t \<Rightarrow> Some t | Inr _ \<Rightarrow> None)
           | Inr _ \<Rightarrow> None))"

text \<open>The edges of a job that \<^verbatim>\<open>compileEdges\<close> scans, and the TypeErrors of a job and of a
  list of jobs, in the order of the scan.\<close>

definition job_edges :: "('e, 'p) job_spec \<Rightarrow> (string \<times> 'p job_edge) list" where
  "job_edges job = (case job_next job of Some (NextMap es) \<Rightarrow> es | _ \<Rightarrow> [])"

definition job_fatal :: "(string \<Rightarrow> thrown_value + 'p) \<Rightarrow> ('e, 'p) job_spec \<Rightarrow> thrown list" where
  "job_fatal cf job = List.map_filter (edge_fatal cf) (job_edges job)"

definition all_fatal :: "(string \<Rightarrow> thrown_value + 'p) \<Rightarrow> ('e, 'p) job_spec list \<Rightarrow> thrown list" where
  "all_fatal cf jobs = concat (map (job_fatal cf) jobs)"

definition job_failures :: "(string \<Rightarrow> thrown_value + 'p) \<Rightarrow> ('e, 'p) job_spec \<Rightarrow> string list" where
  "job_failures cf job =
     (case job_next job of
        Some (NextMap es) \<Rightarrow> concat (map (edge_failure cf (the_id job)) es)
      | _ \<Rightarrow> [])"

definition all_failures :: "(string \<Rightarrow> thrown_value + 'p) \<Rightarrow> ('e, 'p) job_spec list \<Rightarrow> string list" where
  "all_failures cf jobs = concat (map (job_failures cf) jobs)"

text \<open>\<open>references job i\<close>: the \<^verbatim>\<open>next\<close> of \<open>job\<close> points at the id \<open>i\<close>, as \<^verbatim>\<open>findUpstream\<close>
  tests it: a non-empty string equal to \<open>i\<close>, or a map for which \<^verbatim>\<open>next[i]\<close> is truthy.\<close>

definition references :: "('e, 'p) job_spec \<Rightarrow> string \<Rightarrow> bool" where
  "references job i =
     (case job_next job of
        None \<Rightarrow> False
      | Some (NextId s) \<Rightarrow> s \<noteq> [] \<and> s = i
      | Some (NextMap es) \<Rightarrow> next_has es i)"

text \<open>The number of jobs without a usable id among the first \<open>i + 1\<close> jobs.\<close>

definition missing_upto :: "('e, 'p) job_spec list \<Rightarrow> nat \<Rightarrow> nat" where
  "missing_upto js i = length (filter (\<lambda>j. \<not> truthy_str (job_id j)) (take (Suc i) js))"

text \<open>Every node stored under a key carries that key as its id and the upstream job that
  \<^verbatim>\<open>findUpstream\<close> finds for it.\<close>

definition node_ok :: "('e, 'p) job_spec list \<Rightarrow> (string \<rightharpoonup> ('e, 'p) compiled_job_node) \<Rightarrow> bool" where
  "node_ok all jobs = (\<forall>k n. jobs k = Some n \<longrightarrow> node_id n = k \<and> node_previous n = findUpstream all k)"

subsection \<open>Execution context\<close>

text \<open>
  The relation between the dataclip table, the result pointer and the messages pushed so
  far: before any job has completed there is no table, no result and no \<^verbatim>\<open>RUN_COMPLETE\<close>;
  afterwards the result names an entry of the table and is the \<^verbatim>\<open>output_dataclip_id\<close> of
  the last \<^verbatim>\<open>RUN_COMPLETE\<close>.
\<close>

definition clips_consistent :: "('s, 'l) attempt_context \<Rightarrow> bool" where
  "clips_consistent ctx =
     (case dataclips (state ctx) of
        None \<Rightarrow> result (state ctx) = None \<and> last_run_complete (channel ctx) = None
      | Some clips \<Rightarrow>
          (\<exists>r. result (state ctx) = Some r \<and> clips r \<noteq> None \<and>
               last_run_complete (channel ctx) = Some r))"

subsection \<open>Runner\<close>

text \<open>A promise that settles \<open>d\<close> ms later than \<open>p\<close>.\<close>

definition delay :: "nat \<Rightarrow> 's promise \<Rightarrow> 's promise" where
  "delay d p = (case p of Never \<Rightarrow> Never | Settles t r \<Rightarrow> Settles (d + t) r)"

text \<open>
  Sequential application as the specification words it: the first operation receives the
  initial state; when it is fulfilled, the remaining operations run on its result; when
  it is rejected or never settles, so does the whole and nothing else runs.
\<close>

fun sequential :: "('s \<Rightarrow> 's promise) list \<Rightarrow> 's \<Rightarrow> 's promise" where
  "sequential [] s = Settles 0 (Inr s)"
| "sequential (operation # operations) s =
     (case operation s of
        Never \<Rightarrow> Never
      | Settles d (Inl e) \<Rightarrow> Settles d (Inl e)
      | Settles d (Inr s') \<Rightarrow> delay d (sequential operations s'))"


subsection \<open>Worker configuration\<close>

text \<open>The order of precedence as the specification words it: the command line, else the
  environment, else the default.\<close>

definition precedence :: "'a option \<Rightarrow> 'a option \<Rightarrow> 'a option \<Rightarrow> 'a option" where
  "precedence fromCli fromEnv dflt =
     (case fromCli of
        Some v \<Rightarrow> Some v
      | None \<Rightarrow> (case fromEnv of Some v \<Rightarrow> Some v | None \<Rightarrow> dflt))"

text \<open>An environment variable that is read through \<^verbatim>\<open>X ? f(X) : undefined\<close> supplies a value
  when it is set and not empty.\<close>

definition non_empty :: "string option \<Rightarrow> string option" where
  "non_empty x = (case x of None \<Rightarrow> None | Some v \<Rightarrow> if v = [] then None else Some v)"

section \<open>Example inputs\<close>

text \<open>A stand-in for \<^verbatim>\<open>compileFunction\<close> on which the model can be run: it throws an Error
  with the message \<^verbatim>\<open>Unexpected token\<close> for the text \<^verbatim>\<open>!!!not valid\<close>, it throws \<^verbatim>\<open>null\<close> for
  the text \<^verbatim>\<open>throws null\<close>, and it accepts every other text, the predicate being represented
  by its source.\<close>

definition cf_example :: "string \<Rightarrow> thrown_value + string" where
  "cf_example src =
     (if src = ''!!!not valid'' then Inl (ThrownWithMessage ''Unexpected token'')
      else if src = ''throws null'' then Inl ThrownNull
      else Inr src)"

definition mk_job :: "string option \<Rightarrow> string edges option \<Rightarrow> (string, string) job_spec" where
  "mk_job i n =
     \<lparr> job_id = i, job_expression = ''fn(s => s)'', job_state = None,
       job_configuration = None, job_adaptor = None, job_next = n \<rparr>"

definition plan_of :: "(string, string) job_spec list \<Rightarrow> (string, string) execution_plan" where
  "plan_of jobs =
     \<lparr> plan_id = Some ''attempt-1'', plan_initialState = None, plan_jobs = jobs,
       plan_start = None \<rparr>"

text \<open>Two jobs that both name \<^verbatim>\<open>b\<close> in their \<^verbatim>\<open>next\<close> map.\<close>

definition plan_two_parents :: "(string, string) execution_plan" where
  "plan_two_parents =
     plan_of [mk_job (Some ''a1'') (Some (NextMap [(''b'', EdgeBool True)])),
              mk_job (Some ''a2'') (Some (NextMap [(''b'', EdgeBool True)])),
              mk_job (Some ''b'') None]"

text \<open>A \<^verbatim>\<open>next\<close> map that has the key \<^verbatim>\<open>b\<close> with the value \<^verbatim>\<open>false\<close>.\<close>

definition plan_false_edge :: "(string, string) execution_plan" where
  "plan_false_edge =
     plan_of [mk_job (Some ''a'') (Some (NextMap [(''b'', EdgeBool False)])),
              mk_job (Some ''b'') None]"

text \<open>A \<^verbatim>\<open>next\<close> that is the id of the successor.\<close>

definition plan_string_next :: "(string, string) execution_plan" where
  "plan_string_next =
     plan_of [mk_job (Some ''a'') (Some (NextId ''b'')), mk_job (Some ''b'') None]"

text \<open>Three edge conditions that do not compile, in two jobs, among edges that do.\<close>

definition plan_bad_edges :: "(string, string) execution_plan" where
  "plan_bad_edges =
     plan_of [mk_job (Some ''a'')
                (Some (NextMap [(''b'', EdgeString ''!!!not valid''),
                                (''c'', EdgeString ''!state.error''),
                                (''d'', EdgeObject (Some (ConditionSource ''!!!not valid'')) [])])),
              mk_job (Some ''b'') (Some (NextMap [(''d'', EdgeString ''!!!not valid'')])),
              mk_job (Some ''c'') (Some (NextId ''d'')),
              mk_job (Some ''d'') None]"

text \<open>A condition that does not compile, then one for which \<^verbatim>\<open>compileFunction\<close> throws
  \<^verbatim>\<open>null\<close>, then more conditions that do not compile.\<close>

definition plan_null_throw :: "(string, string) execution_plan" where
  "plan_null_throw =
     plan_of [mk_job (Some ''a'')
                (Some (NextMap [(''b'', EdgeString ''!!!not valid''),
                                (''c'', EdgeString ''throws null''),
                                (''d'', EdgeString ''!!!not valid'')])),
              mk_job (Some ''b'') (Some (NextMap [(''d'', EdgeString ''!!!not valid'')])),
              mk_job (Some ''c'') None,
              mk_job (Some ''d'') None]"

text \<open>Jobs without an id, with an id, and with an empty id.\<close>

definition plan_missing_ids :: "(string, string) execution_plan" where
  "plan_missing_ids =
     plan_of [mk_job None (Some (NextId ''x'')), mk_job (Some ''x'') None, mk_job (Some []) None]"

text \<open>A context of states that are JavaScript values and log events that are strings,
  with a stand-in for \<^verbatim>\<open>stringify\<close>.\<close>

definition context_example :: "(jsv, string) attempt_context" where
  "context_example = initial_context (Some ''attempt-1'')"

definition stringify_example :: "jsv \<Rightarrow> string" where
  "stringify_example v = (case v of JNum n \<Rightarrow> (if n = 42 then ''42'' else ''0'') | _ \<Rightarrow> ''{}'')"

text \<open>One job that starts and completes, then the end of the workflow.\<close>

definition events_example :: "((jsv, string) engine_event \<times> string) list" where
  "events_example =
     [(WorkflowStart, ''uuid-0''), (JobStart ''job-1'', ''uuid-1''),
      (JobComplete (JNum 42), ''uuid-2'')]"

text \<open>Operations on numbers: one that adds 1 after 5 ms, one that is rejected after 3 ms,
  one that never settles.\<close>

definition op_increment :: operation where
  "op_increment s = (case s of JNum n \<Rightarrow> Settles 5 (Inr (JNum (n + 1))) | _ \<Rightarrow> Settles 0 (Inl ''TypeError''))"

definition op_reject :: operation where
  "op_reject s = Settles 3 (Inl ''boom'')"

definition op_hang :: operation where
  "op_hang s = Never"


text \<open>A stand-in for the module loader (no module loads); \<^verbatim>\<open>clone\<close> and the JSON round trip
  are the identity on the values of the examples (\<open>id\<close> and \<open>Inr\<close>).\<close>

definition loadModule_example :: "string \<Rightarrow> string + module_exports" where
  "loadModule_example src = Inl ''SyntaxError''"

definition options_example :: options where
  "options_example =
     \<lparr> opt_timeout = None, opt_immutableState = False, opt_forceSandbox = False,
       opt_strict = False \<rparr>"

text \<open>A stand-in for \<^verbatim>\<open>parseInt\<close> that reads unsigned decimal numerals, whatever the radix
  argument.\<close>

definition digit_value :: "char \<Rightarrow> int option" where
  "digit_value c =
     map_of [(CHR ''0'', 0), (CHR ''1'', 1), (CHR ''2'', 2), (CHR ''3'', 3), (CHR ''4'', 4),
             (CHR ''5'', 5), (CHR ''6'', 6), (CHR ''7'', 7), (CHR ''8'', 8), (CHR ''9'', 9)] c"

definition parseInt_example :: "string \<Rightarrow> nat option \<Rightarrow> js_number" where
  "parseInt_example s radix =
     (let ds = takeWhile (\<lambda>c. digit_value c \<noteq> None) s
      in if ds = [] then NaN
         else Number (foldl (\<lambda>a c. 10 * a + (case digit_value c of Some d \<Rightarrow> d | None \<Rightarrow> 0)) 0 ds))"

definition no_args :: parsed_args where
  "no_args =
     \<lparr> cli_port = None, cli_lightning = None, cli_repoDir = None, cli_secret = None,
       cli_loop = None, cli_log = None, cli_lightningPublicKey = None, cli_mock = None,
       cli_backoff = None, cli_capacity = None, cli_runMemory = None,
       cli_statePropsToRemove = None, cli_maxRunDurationSeconds = None \<rparr>"

definition no_env :: environment where
  "no_env =
     \<lparr> WORKER_BACKOFF = None, WORKER_CAPACITY = None, WORKER_LIGHTNING_PUBLIC_KEY = None,
       WORKER_LIGHTNING_SERVICE_URL = None, WORKER_LOG_LEVEL = None,
       WORKER_MAX_RUN_DURATION_SECONDS = None, WORKER_MAX_RUN_MEMORY_MB = None,
       WORKER_PORT = None, WORKER_REPO_DIR = None, WORKER_SECRET = None,
       WORKER_STATE_PROPS_TO_REMOVE = None \<rparr>"

section \<open>Proofs: plan compiler\<close>

declare show_nat.simps [simp del]

lemma ensure_ids_length: "length (ensure_ids n js) = length js"
  by (induction js arbitrary: n) (auto simp: generateJobId_def)

lemma ensure_ids_truthy: "j \<in> set (ensure_ids n js) \<Longrightarrow> truthy_str (job_id j)"
  by (induction js arbitrary: n) (auto simp: generateJobId_def truthy_str_def split: if_splits)

lemma ensure_ids_fixed: "\<forall>j\<in>set js. truthy_str (job_id j) \<Longrightarrow> ensure_ids n js = js"
  by (induction js arbitrary: n) auto

lemma ensure_ids_idem: "ensure_ids m (ensure_ids n js) = ensure_ids n js"
  by (rule ensure_ids_fixed) (auto dest: ensure_ids_truthy)

lemma ensure_ids_nth:
  "i < length js \<Longrightarrow>
   ensure_ids n js ! i =
     (if truthy_str (job_id (js ! i)) then js ! i
      else (js ! i)\<lparr>job_id := Some (''job-'' @ show_nat (n + missing_upto js i))\<rparr>)"
proof (induction js arbitrary: n i)
  case Nil
  then show ?case by simp
next
  case (Cons j js)
  show ?case
  proof (cases i)
    case 0
    then show ?thesis by (simp add: generateJobId_def missing_upto_def)
  next
    case (Suc k)
    with Cons.prems have k: "k < length js" by simp
    show ?thesis using Cons.IH [OF k] Suc
      by (simp add: generateJobId_def missing_upto_def)
  qed
qed

lemma message_of_TypeError: "message_of v = Inl t \<Longrightarrow> \<exists>m. t = TypeError m"
  by (cases v) (auto simp: message_of_def)

lemma compiled_edge_quiet:
  "compileEdge cf e = Inr c \<Longrightarrow> edge_failure cf jid (k, e) = [] \<and> edge_fatal cf (k, e) = None"
  by (cases "(cf, e)" rule: compileEdge.cases)
     (auto simp: edge_failure_def edge_fatal_def split: sum.splits)

lemma failed_edge_message:
  "compileEdge cf e = Inl v \<Longrightarrow> message_of v = Inr m \<Longrightarrow>
   edge_failure cf jid (k, e) = [edge_error_message jid k m] \<and> edge_fatal cf (k, e) = None"
  by (cases "(cf, e)" rule: compileEdge.cases)
     (auto simp: edge_failure_def edge_fatal_def message_of_def split: sum.splits thrown_value.splits)

lemma failed_edge_fatal:
  "compileEdge cf e = Inl v \<Longrightarrow> message_of v = Inl t \<Longrightarrow> edge_fatal cf (k, e) = Some t"
  by (cases "(cf, e)" rule: compileEdge.cases)
     (auto simp: edge_fatal_def split: sum.splits)

lemma edge_fatal_TypeError: "edge_fatal cf ke = Some t \<Longrightarrow> \<exists>m. t = TypeError m"
  by (auto simp: edge_fatal_def dest: message_of_TypeError split: option.splits sum.splits)

lemma edge_loop_result:
  "(List.map_filter (edge_fatal cf) es = [] \<longrightarrow>
      (\<exists>res'. edge_loop jid cf es errs res =
         Inr (errs @ concat (map (edge_failure cf jid) es), res'))) \<and>
   (\<forall>t ts. List.map_filter (edge_fatal cf) es = t # ts \<longrightarrow>
      edge_loop jid cf es errs res = Inl t)"
proof (induction es arbitrary: errs res)
  case Nil
  then show ?case by (simp add: List.map_filter_simps)
next
  case (Cons ke es)
  obtain k e where ke: "ke = (k, e)" by (cases ke)
  show ?case
  proof (cases "compileEdge cf e")
    case (Inr c)
    from compiled_edge_quiet [OF Inr, of jid k]
    show ?thesis using Cons.IH [of errs "res @ [(k, c)]"] Inr ke
      by (simp add: List.map_filter_simps)
  next
    case (Inl v)
    show ?thesis
    proof (cases "message_of v")
      case (Inr m)
      from failed_edge_message [OF Inl Inr, of jid k]
      show ?thesis using Cons.IH [of "errs @ [edge_error_message jid k m]" res] Inl Inr ke
        by (simp add: List.map_filter_simps)
    next
      case t: (Inl t)
      from failed_edge_fatal [OF Inl t, of k]
      show ?thesis using Inl t ke by (simp add: List.map_filter_simps)
    qed
  qed
qed

lemma fatal_head_TypeError:
  assumes "List.map_filter (edge_fatal cf) es = t # ts"
  shows "\<exists>m. t = TypeError m"
proof -
  have "t \<in> set (List.map_filter (edge_fatal cf) es)" using assms by simp
  then obtain ke where "edge_fatal cf ke = Some t"
    by (auto simp: List.map_filter_def)
  then show ?thesis by (rule edge_fatal_TypeError)
qed

lemma all_failures_Cons: "all_failures cf (job # js) = job_failures cf job @ all_failures cf js"
  by (simp add: all_failures_def)

lemma all_fatal_Cons: "all_fatal cf (job # js) = job_fatal cf job @ all_fatal cf js"
  by (simp add: all_fatal_def)

text \<open>The outcome of the guarded call of \<^verbatim>\<open>compileEdges\<close> for one job.\<close>

lemma trapped_edges:
  fixes cf :: "string \<Rightarrow> thrown_value + 'p" and job :: "('e, 'p) job_spec"
    and errs :: "string list"
  defines "r \<equiv> (if next_truthy (job_next job)
               then (case job_next job of
                       Some n \<Rightarrow> trapErrors errs (compileEdges (the_id job) n cf)
                     | None \<Rightarrow> Inr (errs, None))
               else Inr (errs, None))"
  shows "(job_fatal cf job = [] \<longrightarrow> (\<exists>nxt. r = Inr (errs @ job_failures cf job, nxt))) \<and>
         (\<forall>t ts. job_fatal cf job = t # ts \<longrightarrow> r = Inl t)"
proof (cases "job_next job")
  case None
  then show ?thesis
    by (simp add: r_def next_truthy_def job_fatal_def job_edges_def job_failures_def
        List.map_filter_simps)
next
  case (Some n)
  show ?thesis
  proof (cases n)
    case (NextId s)
    then show ?thesis using Some
      by (simp add: r_def job_fatal_def job_edges_def job_failures_def List.map_filter_simps
          trapErrors_def compileEdges_def)
  next
    case (NextMap es)
    have truthy: "next_truthy (job_next job)" using Some NextMap by (simp add: next_truthy_def)
    have r: "r = trapErrors errs (compileEdges (the_id job) (NextMap es) cf)"
      using Some NextMap truthy by (simp add: r_def)
    have fat: "job_fatal cf job = List.map_filter (edge_fatal cf) es"
      and fail: "job_failures cf job = concat (map (edge_failure cf (the_id job)) es)"
      using Some NextMap by (simp_all add: job_fatal_def job_edges_def job_failures_def)
    show ?thesis
    proof (cases "List.map_filter (edge_fatal cf) es")
      case Nil
      with edge_loop_result [of cf es "the_id job" "[]" "[]"]
      obtain res' where "edge_loop (the_id job) cf es [] [] =
          Inr (concat (map (edge_failure cf (the_id job)) es), res')"
        by auto
      then show ?thesis unfolding r fat fail using Nil
        by (cases "concat (map (edge_failure cf (the_id job)) es) = []")
           (simp_all add: compileEdges_def trapErrors_def)
    next
      case (Cons t ts)
      with edge_loop_result [of cf es "the_id job" "[]" "[]"]
      have "edge_loop (the_id job) cf es [] [] = Inl t" by simp
      moreover obtain m where "t = TypeError m" using fatal_head_TypeError [OF Cons] by blast
      ultimately show ?thesis unfolding r fat using Cons
        by (simp add: compileEdges_def trapErrors_def)
    qed
  qed
qed

lemma compile_loop_step:
  fixes cf :: "string \<Rightarrow> thrown_value + 'p" and job :: "('e, 'p) job_spec"
  shows "(job_fatal cf job = [] \<longrightarrow>
           (\<exists>start' n. compile_loop cf all (job # js) start jobs errs =
              compile_loop cf all js start' (jobs(the_id job \<mapsto> n)) (errs @ job_failures cf job) \<and>
              node_id n = the_id job \<and> node_previous n = findUpstream all (the_id job))) \<and>
         (\<forall>t ts. job_fatal cf job = t # ts \<longrightarrow>
            compile_loop cf all (job # js) start jobs errs = Inl t)"
proof -
  define st where "st = (if \<not> truthy_str start then Some (the_id job) else start)"
  define nj where "nj = (\<lambda>nxt :: (string \<times> 'p compiled_job_edge) list option.
     \<lparr> node_id = the_id job, node_expression = job_expression job,
       node_state = (if truthy_opt (job_state job) then job_state job else None),
       node_configuration =
         (if truthy_opt (job_configuration job) then job_configuration job else None),
       node_next = nxt, node_previous = findUpstream all (the_id job) \<rparr>)"
  define r where "r = (if next_truthy (job_next job)
               then (case job_next job of
                       Some n \<Rightarrow> trapErrors errs (compileEdges (the_id job) n cf)
                     | None \<Rightarrow> Inr (errs, None))
               else Inr (errs, None))"
  have unfold: "compile_loop cf all (job # js) start jobs errs =
      (case r of Inl e \<Rightarrow> Inl e
       | Inr (errs', nxt) \<Rightarrow> compile_loop cf all js st (jobs(the_id job \<mapsto> nj nxt)) errs')"
    by (simp add: r_def st_def nj_def Let_def split: sum.splits)
  have tr: "(job_fatal cf job = [] \<longrightarrow> (\<exists>nxt. r = Inr (errs @ job_failures cf job, nxt))) \<and>
         (\<forall>t ts. job_fatal cf job = t # ts \<longrightarrow> r = Inl t)"
    unfolding r_def by (rule trapped_edges)
  have props: "node_id (nj nxt) = the_id job" "node_previous (nj nxt) = findUpstream all (the_id job)"
    for nxt by (simp_all add: nj_def)
  show ?thesis
  proof (cases "job_fatal cf job")
    case Nil
    with tr obtain nxt where "r = Inr (errs @ job_failures cf job, nxt)" by blast
    then have "compile_loop cf all (job # js) start jobs errs =
        compile_loop cf all js st (jobs(the_id job \<mapsto> nj nxt)) (errs @ job_failures cf job)"
      unfolding unfold by simp
    then have "\<exists>start' n. compile_loop cf all (job # js) start jobs errs =
         compile_loop cf all js start' (jobs(the_id job \<mapsto> n)) (errs @ job_failures cf job) \<and>
         node_id n = the_id job \<and> node_previous n = findUpstream all (the_id job)"
      by (intro exI [of _ st] exI [of _ "nj nxt"]) (simp add: props del: compile_loop.simps)
    then show ?thesis using Nil by simp
  next
    case (Cons t ts)
    with tr have "r = Inl t" by blast
    then show ?thesis unfolding unfold using Cons by simp
  qed
qed

lemma compile_loop_result:
  "(all_fatal cf js = [] \<longrightarrow>
      (\<exists>s m. compile_loop cf all js start jobs errs = Inr (s, m, errs @ all_failures cf js))) \<and>
   (\<forall>t ts. all_fatal cf js = t # ts \<longrightarrow> compile_loop cf all js start jobs errs = Inl t)"
proof (induction js arbitrary: start jobs errs)
  case Nil
  then show ?case by (simp add: all_failures_def all_fatal_def)
next
  case (Cons job js)
  show ?case
  proof (cases "job_fatal cf job")
    case (Cons t ts)
    with compile_loop_step [of cf job all js start jobs errs]
    have "compile_loop cf all (job # js) start jobs errs = Inl t" by blast
    then show ?thesis using Cons by (simp add: all_fatal_Cons del: compile_loop.simps)
  next
    case Nil
    with compile_loop_step [of cf job all js start jobs errs]
    obtain s n where step: "compile_loop cf all (job # js) start jobs errs =
        compile_loop cf all js s (jobs(the_id job \<mapsto> n)) (errs @ job_failures cf job)"
      by blast
    show ?thesis
      unfolding step all_fatal_Cons all_failures_Cons Nil append_Nil append_assoc [symmetric]
      by (rule Cons.IH)
  qed
qed

lemma compile_loop_nodes:
  "compile_loop cf all js start jobs errs = Inr (start', jobs', errs') \<Longrightarrow> node_ok all jobs \<Longrightarrow>
   node_ok all jobs' \<and> dom jobs' = dom jobs \<union> the_id ` set js"
proof (induction js arbitrary: start jobs errs)
  case Nil
  then show ?case by simp
next
  case (Cons job js)
  have "job_fatal cf job = []"
  proof (cases "job_fatal cf job")
    case (Cons t ts)
    with compile_loop_step [of cf job all js start jobs errs] Cons.prems(1)
    show ?thesis by (simp del: compile_loop.simps)
  qed simp
  with compile_loop_step [of cf job all js start jobs errs]
  obtain s n where step: "compile_loop cf all (job # js) start jobs errs =
     compile_loop cf all js s (jobs(the_id job \<mapsto> n)) (errs @ job_failures cf job)"
    and n: "node_id n = the_id job" "node_previous n = findUpstream all (the_id job)"
    by blast
  have ok: "node_ok all (jobs(the_id job \<mapsto> n))"
    using Cons.prems(2) n by (simp add: node_ok_def)
  have "compile_loop cf all js s (jobs(the_id job \<mapsto> n)) (errs @ job_failures cf job) =
      Inr (start', jobs', errs')"
    using Cons.prems(1) step by (simp del: compile_loop.simps)
  from Cons.IH [OF this ok]
  show ?case by auto
qed

lemma findUpstream_first_map:
  "\<forall>j\<in>set pre. \<not> references j i \<Longrightarrow> job_next A = Some (NextMap es) \<Longrightarrow> next_has es i \<Longrightarrow>
   findUpstream (pre @ A # post) i = job_id A"
  by (induction pre) (auto simp: references_def next_truthy_def split: option.splits edges.splits)

lemma findUpstream_none:
  "\<forall>j\<in>set js. \<not> references j i \<Longrightarrow> findUpstream js i = None"
  by (induction js) (auto simp: references_def next_truthy_def split: option.splits edges.splits)

lemmas example_plans =
  plan_two_parents_def plan_false_edge_def plan_string_next_def plan_bad_edges_def
  plan_null_throw_def plan_missing_ids_def plan_of_def mk_job_def

lemmas compile_unfold =
  compile_def truthy_str_def truthy_opt_def the_id_def next_truthy_def next_has_def
  trapErrors_def compileEdges_def message_of_def cf_example_def generateJobId_def digit_def
  show_nat.simps Let_def

subsection \<open>C2: the upstream job of a node\<close>

text \<open>
  Claim C2 says that whenever the \<^verbatim>\<open>next\<close> of a job A references the id of a job B, the
  compiled node of B has \<^verbatim>\<open>previous\<close> equal to the id of A. The code keeps one upstream
  job per node, the first that \<^verbatim>\<open>findUpstream\<close> meets in the order of the plan, and it
  tests the value under the key for truthiness. So the claim fails where two jobs name
  the same successor (the node of \<^verbatim>\<open>b\<close> gets \<^verbatim>\<open>a1\<close>, not \<^verbatim>\<open>a2\<close>, although the \<^verbatim>\<open>next\<close> of
  \<^verbatim>\<open>a2\<close> has the key \<^verbatim>\<open>b\<close>), and where the key is present with the value \<^verbatim>\<open>false\<close> (the node
  of \<^verbatim>\<open>b\<close> gets no \<^verbatim>\<open>previous\<close>).
\<close>

theorem previous_counterexample:
  "(case fst (compile cf_example plan_two_parents) of
      Inr c \<Rightarrow> map_option node_previous (compiled_jobs c ''b'')
    | Inl e \<Rightarrow> None) = Some (Some ''a1'') \<and>
   (case fst (compile cf_example plan_false_edge) of
      Inr c \<Rightarrow> map_option node_previous (compiled_jobs c ''b'')
    | Inl e \<Rightarrow> None) = Some None"
  by (simp add: example_plans compile_unfold)

text \<open>
  Claim C2, amended. Let the jobs of the plan carry the ids the compiler has assigned.
  If compilation succeeds, B is a job with id \<open>b\<close>, and A is the first job in the order of
  the plan whose \<^verbatim>\<open>next\<close> references \<open>b\<close>, this \<^verbatim>\<open>next\<close> being a map in which \<^verbatim>\<open>next[b]\<close> is
  truthy, then the node stored under \<open>b\<close> has \<^verbatim>\<open>previous\<close> equal to the id of A. A node has
  one \<^verbatim>\<open>previous\<close> field, so at most one upstream job. (Nothing is said here about an
  upstream job whose \<^verbatim>\<open>next\<close> is a string.)
\<close>

theorem previous_is_first_upstream:
  assumes c: "fst (compile cf plan) = Inr c"
    and split: "plan_jobs (snd (compile cf plan)) = pre @ A # post"
    and first: "\<forall>j\<in>set pre. \<not> references j b"
    and A: "job_next A = Some (NextMap es)" "next_has es b"
    and B: "B \<in> set (plan_jobs (snd (compile cf plan)))" "job_id B = Some b"
  shows "\<exists>n. compiled_jobs c b = Some n \<and> node_id n = b \<and> node_previous n = job_id A"
proof -
  define js where "js = ensure_ids 0 (plan_jobs plan)"
  have js: "plan_jobs (snd (compile cf plan)) = js"
    by (simp add: compile_def js_def Let_def)
  obtain s m e where loop: "compile_loop cf js js (plan_start plan) Map.empty [] = Inr (s, m, e)"
    using c
    by (cases "compile_loop cf js js (plan_start plan) Map.empty []")
       (auto simp: compile_def js_def Let_def)
  with c have cm: "compiled_jobs c = m"
    by (auto simp: compile_def js_def Let_def split: if_splits)
  have ok: "node_ok js m" and d: "dom m = the_id ` set js"
    using compile_loop_nodes [OF loop] by (simp_all add: node_ok_def)
  have "the_id B = b" using B(2) by (simp add: the_id_def)
  then have "b \<in> dom m" using d B(1) js by force
  then obtain n where n: "m b = Some n" by blast
  moreover have "findUpstream js b = job_id A"
    using findUpstream_first_map [OF first A] split js by simp
  ultimately have "node_id n = b \<and> node_previous n = job_id A"
    using ok by (simp add: node_ok_def)
  with n cm show ?thesis by simp
qed

text \<open>The amended claim at the plan with two parents: \<^verbatim>\<open>a1\<close> is the first job, its \<^verbatim>\<open>next\<close>
  map holds \<^verbatim>\<open>true\<close> under \<^verbatim>\<open>b\<close>, and the node of \<^verbatim>\<open>b\<close> names \<^verbatim>\<open>a1\<close>.\<close>

theorem previous_is_first_upstream_witness:
  "\<exists>c n. fst (compile cf_example plan_two_parents) = Inr c \<and>
     compiled_jobs c ''b'' = Some n \<and> node_id n = ''b'' \<and> node_previous n = Some ''a1''"
proof -
  obtain c where c: "fst (compile cf_example plan_two_parents) = Inr c"
    by (simp add: example_plans compile_unfold)
  have split: "plan_jobs (snd (compile cf_example plan_two_parents)) =
      [] @ mk_job (Some ''a1'') (Some (NextMap [(''b'', EdgeBool True)])) #
        [mk_job (Some ''a2'') (Some (NextMap [(''b'', EdgeBool True)])), mk_job (Some ''b'') None]"
    by (simp add: example_plans compile_unfold)
  have first: "\<forall>j\<in>set []. \<not> references j ''b''" by simp
  have A: "job_next (mk_job (Some ''a1'') (Some (NextMap [(''b'', EdgeBool True)]))) =
      Some (NextMap [(''b'', EdgeBool True)])" "next_has [(''b'', EdgeBool True)] ''b''"
    by (simp_all add: mk_job_def next_has_def)
  have B: "mk_job (Some ''b'') None \<in> set (plan_jobs (snd (compile cf_example plan_two_parents)))"
      "job_id (mk_job (Some ''b'') None) = Some ''b''"
    by (simp_all add: example_plans compile_unfold)
  from previous_is_first_upstream [OF c split first A B] c
  show ?thesis by (simp add: mk_job_def)
qed

text \<open>The upstream job of a node whose parent names it with a string: \<^verbatim>\<open>findUpstream\<close>
  returns \<^verbatim>\<open>job.next\<close>, the id of the node itself.\<close>

lemma string_next_previous:
  "(case fst (compile cf_example plan_string_next) of
      Inr c \<Rightarrow> map_option node_previous (compiled_jobs c ''b'')
    | Inl e \<Rightarrow> None) = Some (Some ''b'')"
  by (simp add: example_plans compile_unfold)

subsection \<open>C3: compiling twice\<close>

text \<open>
  Claim C3 says that the compiler, run on its own output, returns that output unchanged.
  The output is not an input of the compiler: its \<^verbatim>\<open>jobs\<close> is a map from id to node, the
  compiler iterates over \<^verbatim>\<open>plan.jobs\<close> as an array, and the second pass ends in a TypeError.
\<close>

theorem recompile_counterexample:
  "(case fst (compile cf_example plan_string_next) of
      Inr c \<Rightarrow>
        fst (compile_value cf_example (CompiledPlan c)) = Inl (TypeError ''plan.jobs is not iterable'')
    | Inl e \<Rightarrow> False)"
  by (simp add: example_plans compile_unfold compile_value_def)

text \<open>
  Claim C3, amended. Compiling an execution plan a second time, after the first pass has
  written the generated ids onto it, gives the same outcome as the first pass and leaves
  the plan as the first pass left it.
\<close>

theorem recompile_same_input:
  "compile cf (snd (compile cf plan)) = compile cf plan"
  by (simp add: compile_def Let_def ensure_ids_idem)

subsection \<open>C6: errors of edge conditions\<close>

text \<open>
  Claim C6. For one job, \<^verbatim>\<open>compileEdges\<close> scans every edge and throws the array of the
  messages \<^verbatim>\<open>Failed to compile edge condition <from>-><target> (<reason>)\<close> of all edges
  whose condition does not compile. The compiler collects these over all jobs: when there
  is at least one, it raises one Error whose message is all of them, in the order of the
  scan, joined by blank lines; when there is none, it returns a compiled plan. What
  \<^verbatim>\<open>compileEdges\<close> throws that is not an array (the TypeError of the \<^verbatim>\<open>catch\<close> block, when
  \<^verbatim>\<open>compileFunction\<close> has thrown \<^verbatim>\<open>null\<close> or \<^verbatim>\<open>undefined\<close>) ends the scan at once:
  \<^verbatim>\<open>compileEdges\<close> throws it, \<^verbatim>\<open>trapErrors\<close> passes on unchanged anything that is not an
  array, and the compiler throws the first such value, whatever errors it has collected.
\<close>

theorem edge_errors_collected:
  "(List.map_filter (edge_fatal cf) es = [] \<longrightarrow> concat (map (edge_failure cf jid) es) \<noteq> [] \<longrightarrow>
      compileEdges jid (NextMap es) cf = Inl (ErrorArray (concat (map (edge_failure cf jid) es)))) \<and>
   (\<forall>t ts. List.map_filter (edge_fatal cf) es = t # ts \<longrightarrow>
      compileEdges jid (NextMap es) cf = Inl t) \<and>
   (all_fatal cf (plan_jobs (snd (compile cf plan))) = [] \<longrightarrow>
    all_failures cf (plan_jobs (snd (compile cf plan))) \<noteq> [] \<longrightarrow>
      fst (compile cf plan) =
        Inl (ErrorObject (join [CHR 0x0A, CHR 0x0A]
               (all_failures cf (plan_jobs (snd (compile cf plan))))))) \<and>
   (all_fatal cf (plan_jobs (snd (compile cf plan))) = [] \<longrightarrow>
    all_failures cf (plan_jobs (snd (compile cf plan))) = [] \<longrightarrow>
      (\<exists>c. fst (compile cf plan) = Inr c)) \<and>
   (\<forall>t ts. all_fatal cf (plan_jobs (snd (compile cf plan))) = t # ts \<longrightarrow>
      fst (compile cf plan) = Inl t \<and> (\<forall>errs. t \<noteq> ErrorArray errs)) \<and>
   (\<forall>e. (\<forall>errs. e \<noteq> ErrorArray errs) \<longrightarrow>
      trapErrors collected (Inl e) = (Inl e :: thrown + string list \<times> 'a option))"
proof -
  have edges: "List.map_filter (edge_fatal cf) es = [] \<longrightarrow>
      concat (map (edge_failure cf jid) es) \<noteq> [] \<longrightarrow>
      compileEdges jid (NextMap es) cf = Inl (ErrorArray (concat (map (edge_failure cf jid) es)))"
    using edge_loop_result [of cf es jid "[]" "[]"] by (auto simp: compileEdges_def)
  have edges_fatal: "\<forall>t ts. List.map_filter (edge_fatal cf) es = t # ts \<longrightarrow>
      compileEdges jid (NextMap es) cf = Inl t"
    using edge_loop_result [of cf es jid "[]" "[]"] by (auto simp: compileEdges_def)
  define js where "js = ensure_ids 0 (plan_jobs plan)"
  have js: "plan_jobs (snd (compile cf plan)) = js"
    by (simp add: compile_def js_def Let_def)
  have loop: "(all_fatal cf js = [] \<longrightarrow>
      (\<exists>s m. compile_loop cf js js (plan_start plan) Map.empty [] =
         Inr (s, m, all_failures cf js))) \<and>
    (\<forall>t ts. all_fatal cf js = t # ts \<longrightarrow>
       compile_loop cf js js (plan_start plan) Map.empty [] = Inl t)"
    using compile_loop_result [of cf js js "plan_start plan" Map.empty "[]"] by simp
  have collected: "all_fatal cf js = [] \<longrightarrow> all_failures cf js \<noteq> [] \<longrightarrow>
        fst (compile cf plan) = Inl (ErrorObject (join [CHR 0x0A, CHR 0x0A] (all_failures cf js)))"
    using loop by (auto simp: compile_def js_def [symmetric] Let_def join_messages_def)
  have clean: "all_fatal cf js = [] \<longrightarrow> all_failures cf js = [] \<longrightarrow>
        (\<exists>c. fst (compile cf plan) = Inr c)"
    using loop by (auto simp: compile_def js_def [symmetric] Let_def)
  have fatal: "\<forall>t ts. all_fatal cf js = t # ts \<longrightarrow>
      fst (compile cf plan) = Inl t \<and> (\<forall>errs. t \<noteq> ErrorArray errs)"
  proof (intro allI impI)
    fix t ts
    assume f: "all_fatal cf js = t # ts"
    with loop have "compile_loop cf js js (plan_start plan) Map.empty [] = Inl t" by blast
    then have "fst (compile cf plan) = Inl t"
      by (simp add: compile_def js_def [symmetric] Let_def)
    moreover have "t \<in> set (all_fatal cf js)" using f by simp
    then obtain ke where "edge_fatal cf ke = Some t"
      by (auto simp: all_fatal_def job_fatal_def List.map_filter_def)
    then have "\<exists>m. t = TypeError m" by (rule edge_fatal_TypeError)
    ultimately show "fst (compile cf plan) = Inl t \<and> (\<forall>errs. t \<noteq> ErrorArray errs)" by auto
  qed
  have trap: "\<forall>e. (\<forall>errs. e \<noteq> ErrorArray errs) \<longrightarrow>
      trapErrors collected (Inl e) = (Inl e :: thrown + string list \<times> 'a option)"
    by (auto simp: trapErrors_def split: thrown.splits)
  show ?thesis using edges edges_fatal collected clean fatal trap unfolding js by blast
qed

text \<open>Claim C6 at a plan with three conditions that do not compile, two in the first job
  and one in the second (one Error, with the three messages), and at a plan where
  \<^verbatim>\<open>compileFunction\<close> throws \<^verbatim>\<open>null\<close> for the second edge of the first job (the TypeError, not
  the collected messages).\<close>

theorem edge_errors_collected_witness:
  "fst (compile cf_example plan_bad_edges) =
     Inl (ErrorObject
       (''Failed to compile edge condition a->b (Unexpected token)'' @ [CHR 0x0A, CHR 0x0A] @
        ''Failed to compile edge condition a->d (Unexpected token)'' @ [CHR 0x0A, CHR 0x0A] @
        ''Failed to compile edge condition b->d (Unexpected token)'')) \<and>
   fst (compile cf_example plan_null_throw) =
     Inl (TypeError (''Cannot read properties of null (reading '' @ [CHR 0x27] @ ''message'' @
                     [CHR 0x27] @ '')''))"
proof -
  have jobs: "plan_jobs (snd (compile cf_example plan_bad_edges)) = plan_jobs plan_bad_edges"
      "plan_jobs (snd (compile cf_example plan_null_throw)) = plan_jobs plan_null_throw"
    by (simp_all add: example_plans compile_def truthy_str_def Let_def)
  have fs: "all_failures cf_example (plan_jobs plan_bad_edges) =
    [''Failed to compile edge condition a->b (Unexpected token)'',
     ''Failed to compile edge condition a->d (Unexpected token)'',
     ''Failed to compile edge condition b->d (Unexpected token)'']"
    by (simp add: example_plans cf_example_def all_failures_def job_failures_def
        edge_failure_def edge_error_message_def the_id_def)
  have nofatal: "all_fatal cf_example (plan_jobs plan_bad_edges) = []"
    by (simp add: example_plans cf_example_def all_fatal_def job_fatal_def job_edges_def
        edge_fatal_def message_of_def List.map_filter_simps)
  have fatal: "all_fatal cf_example (plan_jobs plan_null_throw) =
      [TypeError (''Cannot read properties of null (reading '' @ [CHR 0x27] @ ''message'' @
                     [CHR 0x27] @ '')'')]"
    by (simp add: example_plans cf_example_def all_fatal_def job_fatal_def job_edges_def
        edge_fatal_def message_of_def List.map_filter_simps)
  note bad = edge_errors_collected [of cf_example "[]" "[]" plan_bad_edges "[]",
      THEN conjunct2, THEN conjunct2, THEN conjunct1]
  note null = edge_errors_collected [of cf_example "[]" "[]" plan_null_throw "[]",
      THEN conjunct2, THEN conjunct2, THEN conjunct2, THEN conjunct2, THEN conjunct1]
  have "fst (compile cf_example plan_bad_edges) =
      Inl (ErrorObject (join [CHR 0x0A, CHR 0x0A]
        (all_failures cf_example (plan_jobs plan_bad_edges))))"
    using bad unfolding jobs by (simp add: nofatal fs)
  moreover have "fst (compile cf_example plan_null_throw) =
     Inl (TypeError (''Cannot read properties of null (reading '' @ [CHR 0x27] @ ''message'' @
                     [CHR 0x27] @ '')''))"
    using null unfolding jobs fatal by simp
  ultimately show ?thesis unfolding fs by simp
qed

subsection \<open>C10: the ids written onto the input\<close>

text \<open>
  Claim C10. The plan that the caller passed is changed by the call, whatever its outcome:
  a job whose id is absent or empty (the test is \<^verbatim>\<open>!job.id\<close>) now carries the id
  \<^verbatim>\<open>job-<n>\<close>, where \<open>n\<close> counts the jobs without id up to and including it; a job that had
  an id is unchanged; nothing else of the plan is changed.
\<close>

theorem compile_writes_ids_on_input:
  "snd (compile cf plan) = plan\<lparr> plan_jobs := plan_jobs (snd (compile cf plan)) \<rparr> \<and>
   length (plan_jobs (snd (compile cf plan))) = length (plan_jobs plan) \<and>
   (\<forall>i < length (plan_jobs plan).
      plan_jobs (snd (compile cf plan)) ! i =
        (if truthy_str (job_id (plan_jobs plan ! i)) then plan_jobs plan ! i
         else (plan_jobs plan ! i)
                \<lparr> job_id := Some (''job-'' @ show_nat (missing_upto (plan_jobs plan) i)) \<rparr>))"
  using ensure_ids_nth [where n = 0 and js = "plan_jobs plan"]
  by (simp add: compile_def Let_def ensure_ids_length)

text \<open>Claim C10 at a plan whose first job has no id, whose second job has the id \<^verbatim>\<open>x\<close> and
  whose third job has an empty id.\<close>

theorem compile_writes_ids_on_input_witness:
  "map job_id (plan_jobs (snd (compile cf_example plan_missing_ids))) =
     [Some ''job-1'', Some ''x'', Some ''job-2''] \<and>
   map job_next (plan_jobs (snd (compile cf_example plan_missing_ids))) =
     map job_next (plan_jobs plan_missing_ids)"
proof -
  define out where "out = plan_jobs (snd (compile cf_example plan_missing_ids))"
  have inp: "plan_jobs plan_missing_ids =
      [mk_job None (Some (NextId ''x'')), mk_job (Some ''x'') None, mk_job (Some []) None]"
    by (simp add: plan_missing_ids_def plan_of_def)
  have m: "missing_upto (plan_jobs plan_missing_ids) 0 = Suc 0"
      "missing_upto (plan_jobs plan_missing_ids) 2 = Suc (Suc 0)"
    by (simp_all add: inp mk_job_def missing_upto_def truthy_str_def)
  have digits: "show_nat (Suc 0) = ''1''" "show_nat (Suc (Suc 0)) = ''2''"
    by (simp_all add: show_nat.simps digit_def)
  from compile_writes_ids_on_input [of cf_example plan_missing_ids]
  have nth: "\<And>i. i < 3 \<Longrightarrow> out ! i =
        (if truthy_str (job_id (plan_jobs plan_missing_ids ! i)) then plan_jobs plan_missing_ids ! i
         else (plan_jobs plan_missing_ids ! i)
                \<lparr> job_id := Some (''job-'' @ show_nat (missing_upto (plan_jobs plan_missing_ids) i)) \<rparr>)"
    and l: "length out = 3"
    unfolding out_def by (simp_all add: inp)
  have n0: "out ! 0 = (mk_job None (Some (NextId ''x'')))\<lparr> job_id := Some ''job-1'' \<rparr>"
    using nth [of 0] unfolding m digits by (simp add: inp mk_job_def truthy_str_def)
  have n1: "out ! 1 = mk_job (Some ''x'') None"
    using nth [of 1] by (simp add: inp mk_job_def truthy_str_def)
  have n2: "out ! 2 = (mk_job (Some []) None)\<lparr> job_id := Some ''job-2'' \<rparr>"
    using nth [of 2] unfolding m digits by (simp add: inp mk_job_def truthy_str_def)
  have "out = [(mk_job None (Some (NextId ''x'')))\<lparr> job_id := Some ''job-1'' \<rparr>,
       mk_job (Some ''x'') None, (mk_job (Some []) None)\<lparr> job_id := Some ''job-2'' \<rparr>]"
    using l n0 n1 n2 by (simp add: list_eq_iff_nth_eq less_Suc_eq numeral_3_eq_3 numeral_2_eq_2)
  then show ?thesis unfolding out_def [symmetric] by (simp add: inp mk_job_def)
qed

section \<open>Proofs: execution context\<close>

lemma last_run_complete_snoc:
  "last_run_complete (ms @ [m]) =
     (case m of RUN_COMPLETE r j i d \<Rightarrow> Some i | _ \<Rightarrow> last_run_complete ms)"
  by (induction ms) (auto split: message.splits option.splits)

lemma consistent_initial: "clips_consistent (initial_context pid)"
  by (simp add: clips_consistent_def initial_context_def)

lemma consistent_dispatch:
  "clips_consistent ctx \<Longrightarrow> dispatch stringify ctx ev = Inr ctx' \<Longrightarrow> clips_consistent ctx'"
  by (cases "fst ev")
     (auto simp: dispatch_def clips_consistent_def onWorkflowStart_def onJobStart_def
        onJobComplete_def onJobLog_def onWorkflowComplete_def push_def Let_def
        last_run_complete_snoc split: option.splits)

lemma consistent_run_events:
  "clips_consistent ctx \<Longrightarrow> clips_consistent (run_events stringify ctx evs)"
proof (induction evs arbitrary: ctx)
  case Nil
  then show ?case by simp
next
  case (Cons ev evs)
  show ?case
  proof (cases "dispatch stringify ctx ev")
    case (Inl e)
    then show ?thesis using Cons by simp
  next
    case (Inr ctx')
    then show ?thesis using Cons.IH [OF consistent_dispatch [OF Cons.prems Inr]] by simp
  qed
qed

subsection \<open>C4: the final dataclip\<close>

text \<open>
  Claim C4. Take the context after any sequence of engine events, starting from the
  context that \<^verbatim>\<open>execute\<close> creates. If the handler of \<^verbatim>\<open>workflow-complete\<close> gets as far as
  pushing \<^verbatim>\<open>ATTEMPT_COMPLETE\<close>, then at that moment \<^verbatim>\<open>state.result\<close> names an entry of
  \<^verbatim>\<open>state.dataclips\<close>, the message pushed is \<^verbatim>\<open>ATTEMPT_COMPLETE\<close> with that id as its
  \<^verbatim>\<open>final_dataclip_id\<close>, and the id is the \<^verbatim>\<open>output_dataclip_id\<close> of the last \<^verbatim>\<open>RUN_COMPLETE\<close>
  pushed before. (When no job has completed, the handler throws before it pushes.)
\<close>

theorem attempt_complete_names_last_dataclip:
  assumes reach: "ctx = run_events stringify (initial_context pid) evs"
    and fin: "onWorkflowComplete ctx = Inr ctx'"
  shows "\<exists>clips r. dataclips (state ctx) = Some clips \<and> result (state ctx) = Some r \<and>
           clips r \<noteq> None \<and>
           channel ctx' = channel ctx @ [ATTEMPT_COMPLETE (Some r)] \<and>
           last_run_complete (channel ctx) = Some r"
proof -
  have "clips_consistent ctx"
    unfolding reach by (rule consistent_run_events [OF consistent_initial])
  moreover obtain clips where clips: "dataclips (state ctx) = Some clips"
    using fin by (auto simp: onWorkflowComplete_def Let_def split: option.splits)
  ultimately obtain r where r: "result (state ctx) = Some r" "clips r \<noteq> None"
      "last_run_complete (channel ctx) = Some r"
    by (auto simp: clips_consistent_def)
  have "channel ctx' = channel ctx @ [ATTEMPT_COMPLETE (Some r)]"
    using fin clips r(1) by (auto simp: onWorkflowComplete_def push_def Let_def)
  with clips r show ?thesis by blast
qed

text \<open>Claim C4 on the events of an attempt with one job.\<close>

theorem attempt_complete_witness:
  "\<exists>ctx'. onWorkflowComplete (run_events stringify_example context_example events_example) = Inr ctx' \<and>
     channel ctx' =
       [ATTEMPT_START, RUN_START (Some ''job-1'') (Some ''job-1''),
        RUN_COMPLETE (Some ''uuid-1'') (Some ''job-1'') ''uuid-2'' ''42'',
        ATTEMPT_COMPLETE (Some ''uuid-2'')]"
proof -
  define ctx where "ctx = run_events stringify_example context_example events_example"
  have ch: "channel ctx = [ATTEMPT_START, RUN_START (Some ''job-1'') (Some ''job-1''),
        RUN_COMPLETE (Some ''uuid-1'') (Some ''job-1'') ''uuid-2'' ''42'']"
    by (simp add: ctx_def events_example_def context_example_def initial_context_def dispatch_def
        onWorkflowStart_def onJobStart_def onJobComplete_def push_def Let_def stringify_example_def)
  obtain ctx' where fin: "onWorkflowComplete ctx = Inr ctx'"
    by (simp add: ctx_def events_example_def context_example_def initial_context_def dispatch_def
        onWorkflowStart_def onJobStart_def onJobComplete_def onWorkflowComplete_def push_def Let_def
        stringify_example_def)
  have reach: "ctx = run_events stringify_example (initial_context (Some ''attempt-1'')) events_example"
    by (simp add: ctx_def context_example_def)
  from attempt_complete_names_last_dataclip [OF reach fin] ch
  have "channel ctx' = [ATTEMPT_START, RUN_START (Some ''job-1'') (Some ''job-1''),
        RUN_COMPLETE (Some ''uuid-1'') (Some ''job-1'') ''uuid-2'' ''42'',
        ATTEMPT_COMPLETE (Some ''uuid-2'')]"
    by auto
  with fin show ?thesis unfolding ctx_def by blast
qed

subsection \<open>C1: the run id of \<^verbatim>\<open>RUN_START\<close>\<close>

text \<open>
  Claim C1 says that \<^verbatim>\<open>RUN_START\<close> carries the newly generated run id as \<^verbatim>\<open>run_id\<close>. The
  handler stores the generated id in \<^verbatim>\<open>state.activeRun\<close> and the id of the job in
  \<^verbatim>\<open>state.activeJob\<close>, as the claim says, and then sends \<^verbatim>\<open>state.activeJob\<close> in both fields
  of the message: for the job \<^verbatim>\<open>job-a\<close> and the generated id \<^verbatim>\<open>run-uuid\<close>, the \<^verbatim>\<open>run_id\<close> sent
  is \<^verbatim>\<open>job-a\<close>. (\<^verbatim>\<open>onJobComplete\<close> sends \<^verbatim>\<open>state.activeRun\<close> as the \<^verbatim>\<open>run_id\<close> of
  \<^verbatim>\<open>RUN_COMPLETE\<close>.)
\<close>

theorem run_start_sends_job_id_as_run_id:
  "channel (onJobStart context_example ''run-uuid'' ''job-a'') =
     [RUN_START (Some ''job-a'') (Some ''job-a'')] \<and>
   activeRun (state (onJobStart context_example ''run-uuid'' ''job-a'')) = Some ''run-uuid'' \<and>
   activeJob (state (onJobStart context_example ''run-uuid'' ''job-a'')) = Some ''job-a''"
  by (simp add: onJobStart_def context_example_def initial_context_def push_def Let_def)


section \<open>Proofs: runner\<close>

lemma delay_delay: "delay a (delay b p) = delay (a + b) p"
  by (cases p) (simp_all add: delay_def)

lemma then_fold:
  "foldl (\<lambda>acc operation. then_promise acc operation) acc ops =
     (case acc of
        Never \<Rightarrow> Never
      | Settles t (Inl e) \<Rightarrow> Settles t (Inl e)
      | Settles t (Inr v) \<Rightarrow> delay t (sequential ops v))"
proof (induction ops arbitrary: acc)
  case Nil
  then show ?case by (simp add: delay_def split: promise.splits sum.splits)
next
  case (Cons op ops)
  have step: "foldl (\<lambda>acc operation. then_promise acc operation) acc (op # ops) =
     (case then_promise acc op of
        Never \<Rightarrow> Never
      | Settles t (Inl e) \<Rightarrow> Settles t (Inl e)
      | Settles t (Inr v) \<Rightarrow> delay t (sequential ops v))"
    by (simp add: Cons.IH)
  show ?case
  proof (cases acc)
    case Never
    then show ?thesis unfolding step by (simp add: then_promise_def)
  next
    case (Settles t r)
    show ?thesis
    proof (cases r)
      case (Inl e)
      then show ?thesis unfolding step using Settles by (simp add: then_promise_def)
    next
      case (Inr v)
      then show ?thesis unfolding step using Settles
        by (cases "op v")
           (auto simp: then_promise_def delay_def split: sum.splits promise.splits)
    qed
  qed
qed

lemma defaultExecute_sequential: "defaultExecute ops s = sequential ops s"
  by (cases "sequential ops s") (simp_all add: defaultExecute_def then_fold delay_def)

lemma sequential_rejected_prefix:
  "sequential pre s = Settles t (Inl e) \<Longrightarrow> sequential (pre @ post) s = Settles t (Inl e)"
proof (induction pre arbitrary: s t)
  case Nil
  then show ?case by simp
next
  case (Cons op pre)
  show ?case
  proof (cases "op s")
    case Never
    then show ?thesis using Cons.prems by simp
  next
    case (Settles d r)
    show ?thesis
    proof (cases r)
      case (Inl e')
      then show ?thesis using Cons.prems Settles by simp
    next
      case (Inr s')
      with Cons.prems Settles obtain t' where t': "sequential pre s' = Settles t' (Inl e)" "t = d + t'"
        by (cases "sequential pre s'") (auto simp: delay_def)
      from Cons.IH [OF t'(1)] show ?thesis using Settles Inr t'(2) by (simp add: delay_def)
    qed
  qed
qed

subsection \<open>C8: the default reducer\<close>

text \<open>
  Claim C8. The default reducer applied to a list of operations and a state is the
  sequential application of the operations: each operation receives the value its
  predecessor was fulfilled with, the last operation is applied to the outcome of the
  chain of the others, and once the chain is rejected it stays rejected with the same
  reason, whatever operations follow.
\<close>

theorem default_reducer_is_sequential:
  "defaultExecute ops s = sequential ops s \<and>
   defaultExecute (ops @ [op]) s = then_promise (defaultExecute ops s) op \<and>
   (\<forall>t e rest. defaultExecute ops s = Settles t (Inl e) \<longrightarrow>
      defaultExecute (ops @ rest) s = Settles t (Inl e))"
proof -
  have "defaultExecute (ops @ [op]) s = then_promise (defaultExecute ops s) op"
    by (simp add: defaultExecute_def)
  moreover have "\<forall>t e rest. defaultExecute ops s = Settles t (Inl e) \<longrightarrow>
      defaultExecute (ops @ rest) s = Settles t (Inl e)"
    using sequential_rejected_prefix [of ops s] by (simp add: defaultExecute_sequential)
  ultimately show ?thesis by (simp add: defaultExecute_sequential)
qed

text \<open>Claim C8 on two chains: two increments of 1, and an increment followed by an
  operation that is rejected and one that would never settle.\<close>

theorem default_reducer_witness:
  "defaultExecute [op_increment, op_increment] (JNum 1) = Settles 10 (Inr (JNum 3)) \<and>
   defaultExecute [op_increment, op_reject, op_hang] (JNum 1) = Settles 8 (Inl ''boom'')"
proof -
  have a: "defaultExecute [op_increment, op_reject] (JNum 1) = Settles 8 (Inl ''boom'')"
    by (simp add: defaultExecute_def then_promise_def op_increment_def op_reject_def)
  have b: "sequential [op_increment, op_increment] (JNum 1) = Settles 10 (Inr (JNum 3))"
    by (simp add: op_increment_def delay_def)
  from default_reducer_is_sequential [of "[op_increment, op_reject]" "JNum 1"] a
  have "defaultExecute ([op_increment, op_reject] @ [op_hang]) (JNum 1) = Settles 8 (Inl ''boom'')"
    by blast
  moreover from default_reducer_is_sequential [of "[op_increment, op_increment]" "JNum 1"] b
  have "defaultExecute [op_increment, op_increment] (JNum 1) = Settles 10 (Inr (JNum 3))"
    by simp
  ultimately show ?thesis by simp
qed

subsection \<open>C5: \<^verbatim>\<open>forceSandbox\<close> and a list of operations\<close>

text \<open>
  Claim C5 says that with \<^verbatim>\<open>forceSandbox\<close> set and a list of operations as the job, the
  promise returned by the runner is rejected with \<^verbatim>\<open>Invalid arguments: jobs must be
  strings\<close>. \<^verbatim>\<open>prepareJob\<close> throws that error, but inside the \<^verbatim>\<open>async\<close> executor and before its
  \<^verbatim>\<open>try\<close> block: the rejection goes to the promise of the executor, no timer has been armed,
  and the promise that the runner returned never settles. This holds for \<^verbatim>\<open>run\<close> and for
  the default export modelled by \<open>execute_expression\<close>.
\<close>

theorem force_sandbox_run_never_settles:
  "prepareJob loadModule_example (OperationList [op_increment])
     (options_example\<lparr> opt_forceSandbox := True \<rparr>) =
     Inl ''Invalid arguments: jobs must be strings'' \<and>
   run loadModule_example id (OperationList [op_increment]) (JNum 1)
     (options_example\<lparr> opt_forceSandbox := True \<rparr>) =
     \<lparr> settled = Never, timers = [], timer_cleared = False,
       unhandled = Some ''Invalid arguments: jobs must be strings'' \<rparr> \<and>
   execute_expression Inr loadModule_example id (OperationList [op_increment]) (JNum 1)
     (options_example\<lparr> opt_forceSandbox := True \<rparr>) =
     \<lparr> settled = Never, timers = [], timer_cleared = False,
       unhandled = Some ''Invalid arguments: jobs must be strings'' \<rparr>"
  by (simp add: run_def execute_expression_def pipeline_def prepareJob_def options_example_def)

subsection \<open>C7: the timeout\<close>




section \<open>Proofs: worker configuration\<close>

lemma setArg_precedence: "setArg c e d = precedence c e d"
  by (simp add: setArg_def precedence_def split: option.splits)

lemma if_set_non_empty: "if_set x f = map_option f (non_empty x)"
  by (simp add: if_set_def non_empty_def split: option.splits)

lemma split_not_empty: "split c s \<noteq> []"
  by (induction s) (auto split: list.splits)

lemma join_split: "join [c] (split c s) = s"
proof (induction s)
  case Nil
  then show ?case by simp
next
  case (Cons x s)
  obtain w ws where ws: "split c s = w # ws"
    using split_not_empty [of c s] by (cases "split c s") auto
  show ?case using Cons ws by (cases ws) auto
qed

lemma split_pieces: "w \<in> set (split c s) \<Longrightarrow> c \<notin> set w"
  by (induction s arbitrary: w) (auto split: if_splits list.splits)

subsection \<open>C9: command line, environment, default\<close>

text \<open>
  Claim C9 says that the environment variable of a setting takes precedence over the
  default. Five of the variables are read as \<^verbatim>\<open>X ? f(X) : undefined\<close>: a variable that is
  set to the empty string supplies no value, and the default is used.
\<close>

theorem env_counterexample:
  "capacity (args parseInt_example no_args (no_env\<lparr> WORKER_CAPACITY := Some [] \<rparr>)) =
     Some (Number 5) \<and>
   statePropsToRemove
     (args parseInt_example no_args (no_env\<lparr> WORKER_STATE_PROPS_TO_REMOVE := Some [] \<rparr>)) =
     Some [''configuration'', ''response'']"
  by (simp add: args_def setArg_def if_set_def no_args_def no_env_def)

text \<open>
  Claim C9, amended. Each of the eleven settings is the value given on the command line
  if there is one, else the value that the environment variable supplies, else the
  default. The variables of the string settings supply their value whenever they are set.
  The variables of port, capacity, run memory and max run duration supply a value, read
  with \<^verbatim>\<open>parseInt\<close>, when they are set and not empty, and \<^verbatim>\<open>WORKER_STATE_PROPS_TO_REMOVE\<close>
  supplies its value cut at every comma when it is set and not empty. The defaults are
  those of the claim. The backoff in force is cut at every \<^verbatim>\<open>/\<close>, and each piece is read
  with \<^verbatim>\<open>parseInt\<close> and multiplied by 1000. (Cutting a text at a character gives the pieces,
  free of that character, that joined with it give the text back.)
\<close>

theorem cli_then_env_then_default:
  "port (args parseInt parser env) =
     precedence (cli_port parser)
       (map_option (\<lambda>v. parseInt v None) (non_empty (WORKER_PORT env))) (Some (Number 2222)) \<and>
   lightning (args parseInt parser env) =
     precedence (cli_lightning parser) (WORKER_LIGHTNING_SERVICE_URL env)
       (Some ''ws://localhost:4000/worker'') \<and>
   repoDir (args parseInt parser env) =
     precedence (cli_repoDir parser) (WORKER_REPO_DIR env) None \<and>
   secret (args parseInt parser env) =
     precedence (cli_secret parser) (WORKER_SECRET env) None \<and>
   lightningPublicKey (args parseInt parser env) =
     precedence (cli_lightningPublicKey parser) (WORKER_LIGHTNING_PUBLIC_KEY env) None \<and>
   log (args parseInt parser env) =
     precedence (cli_log parser) (WORKER_LOG_LEVEL env) (Some ''debug'') \<and>
   backoff (args parseInt parser env) =
     precedence (cli_backoff parser) (WORKER_BACKOFF env) (Some ''1/10'') \<and>
   capacity (args parseInt parser env) =
     precedence (cli_capacity parser)
       (map_option (\<lambda>v. parseInt v None) (non_empty (WORKER_CAPACITY env))) (Some (Number 5)) \<and>
   runMemory (args parseInt parser env) =
     precedence (cli_runMemory parser)
       (map_option (\<lambda>v. parseInt v None) (non_empty (WORKER_MAX_RUN_MEMORY_MB env)))
       (Some (Number 500)) \<and>
   maxRunDurationSeconds (args parseInt parser env) =
     precedence (cli_maxRunDurationSeconds parser)
       (map_option (\<lambda>v. parseInt v None) (non_empty (WORKER_MAX_RUN_DURATION_SECONDS env)))
       (Some (Number 300)) \<and>
   statePropsToRemove (args parseInt parser env) =
     precedence (cli_statePropsToRemove parser)
       (map_option (split CHR '','') (non_empty (WORKER_STATE_PROPS_TO_REMOVE env)))
       (Some [''configuration'', ''response'']) \<and>
   (\<forall>b. \<exists>pieces. pieces \<noteq> [] \<and> join ''/'' pieces = b \<and> (\<forall>w\<in>set pieces. CHR ''/'' \<notin> set w) \<and>
      backoff_bounds parseInt b = map (\<lambda>n. times (parseInt n (Some 10)) 1000) pieces) \<and>
   (\<forall>c s. split c s \<noteq> [] \<and> join [c] (split c s) = s \<and> (\<forall>w\<in>set (split c s). c \<notin> set w))"
proof -
  have cut: "\<forall>c s. split c s \<noteq> [] \<and> join [c] (split c s) = s \<and> (\<forall>w\<in>set (split c s). c \<notin> set w)"
    by (simp add: split_not_empty join_split split_pieces)
  have "\<exists>pieces. pieces \<noteq> [] \<and> join ''/'' pieces = b \<and> (\<forall>w\<in>set pieces. CHR ''/'' \<notin> set w) \<and>
      backoff_bounds parseInt b = map (\<lambda>n. times (parseInt n (Some 10)) 1000) pieces" for b
    using cut by (intro exI [of _ "split CHR ''/'' b"]) (simp add: backoff_bounds_def)
  then show ?thesis using cut
    by (simp add: args_def setArg_precedence if_set_non_empty)
qed

text \<open>The amended claim C9 with a capacity on the command line and in the environment, a
  port, a backoff and the state properties in the environment only, and an empty
  \<^verbatim>\<open>WORKER_MAX_RUN_MEMORY_MB\<close>.\<close>

theorem cli_then_env_then_default_witness:
  "capacity (args parseInt_example (no_args\<lparr> cli_capacity := Some (Number 3) \<rparr>)
      (no_env\<lparr> WORKER_CAPACITY := Some ''7'', WORKER_PORT := Some ''8080'',
               WORKER_STATE_PROPS_TO_REMOVE := Some ''data,references'',
               WORKER_MAX_RUN_MEMORY_MB := Some [], WORKER_BACKOFF := Some ''2/30'' \<rparr>)) =
     Some (Number 3) \<and>
   port (args parseInt_example (no_args\<lparr> cli_capacity := Some (Number 3) \<rparr>)
      (no_env\<lparr> WORKER_CAPACITY := Some ''7'', WORKER_PORT := Some ''8080'',
               WORKER_STATE_PROPS_TO_REMOVE := Some ''data,references'',
               WORKER_MAX_RUN_MEMORY_MB := Some [], WORKER_BACKOFF := Some ''2/30'' \<rparr>)) =
     Some (Number 8080) \<and>
   statePropsToRemove (args parseInt_example (no_args\<lparr> cli_capacity := Some (Number 3) \<rparr>)
      (no_env\<lparr> WORKER_CAPACITY := Some ''7'', WORKER_PORT := Some ''8080'',
               WORKER_STATE_PROPS_TO_REMOVE := Some ''data,references'',
               WORKER_MAX_RUN_MEMORY_MB := Some [], WORKER_BACKOFF := Some ''2/30'' \<rparr>)) =
     Some [''data'', ''references''] \<and>
   runMemory (args parseInt_example (no_args\<lparr> cli_capacity := Some (Number 3) \<rparr>)
      (no_env\<lparr> WORKER_CAPACITY := Some ''7'', WORKER_PORT := Some ''8080'',
               WORKER_STATE_PROPS_TO_REMOVE := Some ''data,references'',
               WORKER_MAX_RUN_MEMORY_MB := Some [], WORKER_BACKOFF := Some ''2/30'' \<rparr>)) =
     Some (Number 500) \<and>
   backoff (args parseInt_example (no_args\<lparr> cli_capacity := Some (Number 3) \<rparr>)
      (no_env\<lparr> WORKER_CAPACITY := Some ''7'', WORKER_PORT := Some ''8080'',
               WORKER_STATE_PROPS_TO_REMOVE := Some ''data,references'',
               WORKER_MAX_RUN_MEMORY_MB := Some [], WORKER_BACKOFF := Some ''2/30'' \<rparr>)) =
     Some ''2/30'' \<and>
   backoff_bounds parseInt_example ''2/30'' = [Number 2000, Number 30000]"
proof -
  note inst = cli_then_env_then_default [of parseInt_example
      "no_args\<lparr> cli_capacity := Some (Number 3) \<rparr>"
      "no_env\<lparr> WORKER_CAPACITY := Some ''7'', WORKER_PORT := Some ''8080'',
               WORKER_STATE_PROPS_TO_REMOVE := Some ''data,references'',
               WORKER_MAX_RUN_MEMORY_MB := Some [], WORKER_BACKOFF := Some ''2/30'' \<rparr>"]
  have bounds: "backoff_bounds parseInt_example ''2/30'' = [Number 2000, Number 30000]"
    by (simp add: backoff_bounds_def parseInt_example_def digit_value_def times_def)
  show ?thesis
    using inst bounds
    by (simp add: no_args_def no_env_def precedence_def non_empty_def parseInt_example_def
        digit_value_def)
qed

end
